theory Spec2Isabelle
  imports Main "HOL-Library.AList"
begin

section \<open>Syntax tree, as the evaluator queries it\<close>

text \<open>
  The evaluator never looks at raw syntax: it asks a node for its kind (\<open>isCall()\<close>,
  \<open>isIdentifier()\<close>, ...) and reads a few accessors (\<open>getCallee\<close>, \<open>getArgs\<close>,
  \<open>getSymbol\<close>, \<open>getPairs\<close>, \<open>getValue\<close>). The node classes are not part of the sources at
  hand, so a node is a tagged value: one constructor per kind that \<open>computeValue\<close>,
  \<open>computeEntity\<close> and \<open>computeInstruction\<close> distinguish, carrying exactly the accessors
  the interpreter reads. The kinds whose handlers live in other modules carry an opaque
  handle.
\<close>

typedecl host_float

datatype ValueNode =
    FunctionExprNode nat
  | ReassignmentNode nat
  | ModuleAccessNode nat
  | ObjectDestructionNode nat
  | ObjectAccessNode nat
  | BinaryExprNode nat
  | CallExpr string "ValueNode list"
  | IdentifierNode string
  | LiteralObjectNode "(string \<times> ValueNode) list"
  | LiteralArrayNode "ValueNode list"
  | StringNode string
  | NumericNode int
  | FloatNode host_float
  | CharNode string
  | UndefinedNode
  | UnsupportedNode string

text \<open>A \<open>CallNode\<close> read through its two accessors.\<close>

type_synonym CallNode = "string \<times> ValueNode list"

definition getCallee :: "CallNode \<Rightarrow> string" where
  "getCallee call = fst call"

definition getArgs :: "CallNode \<Rightarrow> ValueNode list" where
  "getArgs call = snd call"

datatype ControlStmtNode = IfNode nat | OtherControlNode nat

datatype EntityNode =
    FunctionStmtNode nat
  | ModuleNode nat
  | VariableNode nat
  | UnsupportedEntityNode string

datatype Instruction =
    ValueInstr ValueNode
  | ControlInstr ControlStmtNode
  | EntityInstr EntityNode

section \<open>Runtime values\<close>

type_synonym ScopeRef = nat

record ScrapParam =
  pName :: string
  isRest :: bool

text \<open>
  \<open>DefinedFunction\<close>: the fields are named after the getters the interpreter uses.
  The scope is held by reference.
\<close>

record DefinedFunction =
  name :: string
  isExported :: bool
  getScope :: ScopeRef
  getParams :: "ScrapParam list"
  getBody :: "Instruction list"
  getReturnValue :: ValueNode

text \<open>\<open>argsCount: number | true\<close> of a native function.\<close>

datatype ArgsCount = Count nat | AnyCount

text \<open>
  \<open>ScrapNative\<close>: name, exported flag, a handle for the host callable, and the arity.
\<close>

datatype ScrapNative = ScrapNative string bool nat ArgsCount

text \<open>
  \<open>ScrapInteger\<close> holds a host number. The model covers the integers that a host number
  represents exactly, so the stored scalar is an \<open>int\<close>.
\<close>

datatype ScrapInteger = ScrapInteger (getValue: int)

record Metaproperties =
  isStatic :: bool
  visibility :: string
  writeable :: bool

text \<open>
  The host language is dynamically typed and the interpreter relies on it: a scope table
  holds variables and functions alike, \<open>computeLitObj\<close> stores evaluated values where the
  class \<open>ScrapObject\<close> declares property descriptors, and a function with an empty body
  hands the host's \<open>undefined\<close> to its caller. So there is one type of runtime data,
  with a constructor per class:

  \<^item> \<open>JsUndefined\<close> is the host's \<open>undefined\<close> (no object at all);
  \<^item> \<open>HostPayload v\<close> is the raw content of the field \<open>value\<close> of the instance \<open>v\<close>, a host
    datum that is not an instance of any class below;
  \<^item> \<open>ScrapObjectProperty m v\<close> is the descriptor \<open>{ metaproperties: m, value: v }\<close>;
  \<^item> \<open>ScrapValue p\<close> is a plain \<open>new ScrapValue(p)\<close>;
  \<^item> \<open>ScrapVariable isConst name assignedValue isExported\<close> is the class of
    \<open>variables.ts\<close>.

  A \<open>ScrapObject\<close> is its prototype reference (nullable) and the field \<open>value\<close> it
  inherits from \<open>ScrapValue\<close>, which holds what the constructor was given as \<open>entries\<close>:
  the object's own property table, a host \<open>Map\<close>, or \<open>undefined\<close> (\<open>None\<close>) when the
  constructor was given none. A table is an association list read with \<open>map_of\<close> and
  written with \<open>AList.update\<close>, which, like \<open>Map.set\<close>, replaces the entry of a key that
  is present and appends one for a key that is not.
\<close>

datatype RuntimeValue =
    JsUndefined
  | HostPayload RuntimeValue
  | ScrapObjectProperty Metaproperties RuntimeValue
  | ScrapUndefined
  | ScrapValue RuntimeValue
  | IntegerValue ScrapInteger
  | ScrapFloat host_float
  | ScrapString string
  | ScrapChar string
  | ObjectValue ScrapObject
  | ScrapArray "RuntimeValue list"
  | Defined DefinedFunction
  | Native ScrapNative
  | ScrapVariable bool string RuntimeValue bool
  | ScrapModule string bool nat
and ScrapObject =
    ScrapObject (prototype: "ScrapObject option")
      (entries: "(string \<times> RuntimeValue) list option")

subsection \<open>\<open>ScrapInteger\<close>: \<open>increment\<close> and \<open>decrement\<close>\<close>

text \<open>
  \<open>return new ScrapInteger((this.value as number)++)\<close>. The postfix operator yields the
  value the field had and then stores that value plus one in the field. The receiver is
  a mutable object, so the model returns two things: the new object and the receiver as
  it is after the call.
\<close>

definition increment :: "ScrapInteger \<Rightarrow> ScrapInteger \<times> ScrapInteger" where
  "increment this =
     (let old = getValue this;
          this' = ScrapInteger (old + 1)
      in (ScrapInteger old, this'))"

definition decrement :: "ScrapInteger \<Rightarrow> ScrapInteger \<times> ScrapInteger" where
  "decrement this =
     (let old = getValue this;
          this' = ScrapInteger (old - 1)
      in (ScrapInteger old, this'))"

subsection \<open>\<open>ScrapObject\<close>: \<open>get\<close>, \<open>set\<close>, \<open>has\<close>\<close>

text \<open>
  The two failure kinds of the language, and \<open>HostTypeError\<close> for an exception of the
  host itself (reading a property of \<open>undefined\<close>, calling what is not a function).
  \<open>UndefinedReferenceError\<close> carries the parser's current token in the source; the parser
  is outside the model.
\<close>

datatype ScrapError = UndefinedReferenceError | RuntimeError string | HostTypeError

text \<open>
  A function is an object: \<open>ScrapFunction extends ScrapObject\<close>, and both
  \<open>DefinedFunction\<close> and \<open>ScrapNative\<close> extend it. Its constructor calls \<open>super(null)\<close>
  (under the comment \<open>TODO: gives the constructor a suitable initial value\<close>): the
  prototype is \<open>null\<close> and no entries are passed, so the field \<open>value\<close> of every
  function object is \<open>undefined\<close>. \<open>objectOf\<close> gives the \<open>ScrapObject\<close> that a runtime value
  is, if it is one.
\<close>

fun objectOf :: "RuntimeValue \<Rightarrow> ScrapObject option" where
  "objectOf (ObjectValue obj) = Some obj"
| "objectOf (Defined f) = Some (ScrapObject None None)"
| "objectOf (Native n) = Some (ScrapObject None None)"
| "objectOf _ = None"

text \<open>
  \<open>const prop = (this.value as Map).get(name); return prop ? prop.value : new ScrapUndefined()\<close>.
  On a receiver whose \<open>value\<close> is \<open>undefined\<close> the call \<open>this.value.get\<close> throws the host's
  TypeError. \<open>Map.get\<close> gives \<open>undefined\<close> for a missing key; a slot that holds \<open>undefined\<close>
  is falsy as well. Reading \<open>.value\<close> of a descriptor gives the described value; reading
  it of a class instance stored in place of a descriptor gives that instance's raw
  payload. The field \<open>prototype\<close> is not read.
\<close>

fun valueOfSlot :: "RuntimeValue \<Rightarrow> RuntimeValue" where
  "valueOfSlot (ScrapObjectProperty m v) = v"
| "valueOfSlot (ScrapValue p) = p"
| "valueOfSlot v = HostPayload v"

definition get :: "ScrapObject \<Rightarrow> string \<Rightarrow> ScrapError + RuntimeValue" where
  "get this key =
     (case entries this of
        None \<Rightarrow> Inl HostTypeError
      | Some table \<Rightarrow>
          (case map_of table key of
             None \<Rightarrow> Inr ScrapUndefined
           | Some prop \<Rightarrow>
               if prop = JsUndefined then Inr ScrapUndefined else Inr (valueOfSlot prop)))"

text \<open>
  \<open>(this.value as Map).set(key, value)\<close> mutates the receiver's own table; the model
  returns the receiver as it is after the call. On a receiver without a table the call
  throws the host's TypeError.
\<close>

definition set_obj :: "ScrapObject \<Rightarrow> string \<Rightarrow> RuntimeValue \<Rightarrow> ScrapError + ScrapObject" where
  "set_obj this key val =
     (case entries this of
        None \<Rightarrow> Inl HostTypeError
      | Some table \<Rightarrow> Inr (ScrapObject (prototype this) (Some (AList.update key val table))))"

text \<open>
  \<open>return (this.value as Map).has(name)\<close>; the host's TypeError on a receiver without a
  table.
\<close>

definition has :: "ScrapObject \<Rightarrow> string \<Rightarrow> ScrapError + bool" where
  "has this key =
     (case entries this of
        None \<Rightarrow> Inl HostTypeError
      | Some table \<Rightarrow> Inr (map_of table key \<noteq> None))"

section \<open>Failures and outcomes\<close>

text \<open>
  What running a piece of the interpreter on a state gives: a result and the state
  after it, a raised error (which unwinds the whole run, so no state is kept), or
  \<open>Diverged\<close> when the run does not come back.
\<close>

datatype ('a, 's) Outcome = Diverged | Raised ScrapError | Returned 'a 's

fun andThen :: "('a, 's) Outcome \<Rightarrow> ('a \<Rightarrow> 's \<Rightarrow> ('b, 's) Outcome) \<Rightarrow> ('b, 's) Outcome" where
  "andThen Diverged k = Diverged"
| "andThen (Raised e) k = Raised e"
| "andThen (Returned a s) k = k a s"

text \<open>\<open>for (const x of xs) body(x)\<close>: in order, stopping at the first failure.\<close>

fun forEach :: "'a list \<Rightarrow> ('a \<Rightarrow> 's \<Rightarrow> (unit, 's) Outcome) \<Rightarrow> 's \<Rightarrow> (unit, 's) Outcome" where
  "forEach [] body s = Returned () s"
| "forEach (x # xs) body s = andThen (body x s) (\<lambda>_ s'. forEach xs body s')"

text \<open>\<open>xs.map(f)\<close> for an \<open>f\<close> that has effects: in order, collecting the results.\<close>

fun mapEach :: "'a list \<Rightarrow> ('a \<Rightarrow> 's \<Rightarrow> ('b, 's) Outcome) \<Rightarrow> 's \<Rightarrow> ('b list, 's) Outcome" where
  "mapEach [] f s = Returned [] s"
| "mapEach (x # xs) f s =
     andThen (f x s) (\<lambda>y s'. andThen (mapEach xs f s') (\<lambda>ys s''. Returned (y # ys) s''))"

definition scrapRuntimeError :: "string \<Rightarrow> ('a, 's) Outcome" where
  "scrapRuntimeError message = Raised (RuntimeError message)"

definition scrapReferenceError :: "('a, 's) Outcome" where
  "scrapReferenceError = Raised UndefinedReferenceError"

text \<open>
  \<open>this.scrapRuntimeError(...)\<close> and \<open>this.scrapReferenceError()\<close>, as \<open>execCallee\<close>,
  \<open>findCallee\<close> and \<open>computeIdentifier\<close> write them. The class \<open>Interpreter\<close> has no member
  of either name (the functions so named are exported by the module and take no
  receiver): the member read gives \<open>undefined\<close>, the message is built, and calling
  \<open>undefined\<close> throws the host's TypeError.
\<close>

definition this_scrapRuntimeError :: "string \<Rightarrow> ('a, 's) Outcome" where
  "this_scrapRuntimeError message = Raised HostTypeError"

definition this_scrapReferenceError :: "('a, 's) Outcome" where
  "this_scrapReferenceError = Raised HostTypeError"

text \<open>A number inside a template literal: its decimal digits.\<close>

fun showNat :: "nat \<Rightarrow> string" where
  "showNat n =
     (if n < 10 then [''0123456789'' ! n]
      else showNat (n div 10) @ [''0123456789'' ! (n mod 10)])"

declare showNat.simps [simp del]

definition quoted :: "string \<Rightarrow> string" where
  "quoted x = [CHR 0x27] @ x @ [CHR 0x27]"

section \<open>Environment\<close>

text \<open>
  Modelled from the spec: the class \<open>Scope\<close> (\<open>@lang/scope.ts\<close>) is not among the
  sources; the interpreter only calls it. A scope is an owner label, a nullable
  reference to its parent, and its own table from names to entities. Scopes are shared
  by reference (a function holds its scope, a child its parent), so the state of a run
  is a store of scopes addressed by reference; whatever else the modules outside the
  model keep lives in the extension of the record.
\<close>

record Scope =
  getOwner :: string
  parent :: "ScopeRef option"
  getEntries :: "(string \<times> RuntimeValue) list"

record Runtime =
  scopes :: "ScopeRef \<Rightarrow> Scope"

definition ownEntries :: "'x Runtime_scheme \<Rightarrow> ScopeRef \<Rightarrow> (string \<times> RuntimeValue) list" where
  "ownEntries s ref = getEntries (scopes s ref)"

text \<open>
  Modelled from the spec: \<open>Scope.addEntry\<close>, missing with its class. "Fails if the name
  already exists in this scope's own table; parent scopes are not consulted"; the
  interpreter's \<open>addToScope\<close> reads the failure as a falsy result. The model returns the
  flag and the state after the call.
\<close>

definition addEntry :: "ScopeRef \<Rightarrow> string \<Rightarrow> RuntimeValue \<Rightarrow> 'x Runtime_scheme \<Rightarrow> bool \<times> 'x Runtime_scheme" where
  "addEntry ref key entity s =
     (if map_of (ownEntries s ref) key \<noteq> None then (False, s)
      else (True,
        s\<lparr>scopes := (scopes s)
          (ref := (scopes s ref)\<lparr>getEntries := ownEntries s ref @ [(key, entity)]\<rparr>)\<rparr>))"

text \<open>
  Modelled from the spec: \<open>Scope.clean\<close>, missing with its class. "Empties this scope's
  own table; never touches the parent."
\<close>

definition clean :: "ScopeRef \<Rightarrow> 'x Runtime_scheme \<Rightarrow> 'x Runtime_scheme" where
  "clean ref s = s\<lparr>scopes := (scopes s)(ref := (scopes s ref)\<lparr>getEntries := []\<rparr>)\<rparr>"

text \<open>
  Modelled from the spec: \<open>Scope.getReference\<close>, missing with its class. "Returns the
  nearest binding found by searching this scope then successive parents; returns
  absence if exhausted." Absence is the host's \<open>undefined\<close>, which is what the
  interpreter tests for. A chain of parents that runs in a cycle never comes back:
  the result is \<open>None\<close> then.
\<close>

partial_function (option) getReference ::
  "'x Runtime_scheme \<Rightarrow> ScopeRef \<Rightarrow> string \<Rightarrow> RuntimeValue option" where
  "getReference s ref key =
     (case map_of (ownEntries s ref) key of
        Some entity \<Rightarrow> Some entity
      | None \<Rightarrow>
          (case parent (scopes s ref) of
             None \<Rightarrow> Some JsUndefined
           | Some up \<Rightarrow> getReference s up key))"

text \<open>
  Modelled from the spec: \<open>Scope.get\<close>, missing with its class, which \<open>findCallee\<close> calls.
  The spec describes a single lookup ("look up the call's target name in the caller's
  scope", under the rule that "lookup walks self then parent chain"), so \<open>get\<close> is the
  same search as \<open>getReference\<close>.
\<close>

definition scopeGet :: "'x Runtime_scheme \<Rightarrow> ScopeRef \<Rightarrow> string \<Rightarrow> RuntimeValue option" where
  "scopeGet s ref key = getReference s ref key"

section \<open>Entities and guards\<close>

text \<open>
  \<open>guards.isVariable\<close> is the test \<open>instanceof ScrapVariable\<close>, which \<open>computeIdentifier\<close>
  writes out. \<open>instanceof ScrapPrimitive\<close>: the base class of \<open>ScrapInteger\<close> and
  \<open>ScrapFloat\<close> in \<open>numerics.ts\<close> and, by the data model of the spec, of the textual
  values.
\<close>

fun isVariable :: "RuntimeValue \<Rightarrow> bool" where
  "isVariable (ScrapVariable c n v e) = True"
| "isVariable _ = False"

fun isScrapPrimitive :: "RuntimeValue \<Rightarrow> bool" where
  "isScrapPrimitive (IntegerValue i) = True"
| "isScrapPrimitive (ScrapFloat f) = True"
| "isScrapPrimitive (ScrapString t) = True"
| "isScrapPrimitive (ScrapChar c) = True"
| "isScrapPrimitive _ = False"

text \<open>
  The getter \<open>getAssignedValue\<close> of \<open>ScrapVariable\<close>. Reading a property that an object
  does not have gives \<open>undefined\<close> in the host.
\<close>

fun getAssignedValue :: "RuntimeValue \<Rightarrow> RuntimeValue" where
  "getAssignedValue (ScrapVariable c n v e) = v"
| "getAssignedValue _ = JsUndefined"

text \<open>
  \<open>callee.getVal\<close> in \<open>findCallee\<close>. Neither \<open>ScrapVariable\<close> nor its base class
  \<open>ScrapEntity\<close> declares a member \<open>getVal\<close> (the getter of the assigned value is
  \<open>getAssignedValue\<close>), and no class of \<open>commons\<close> does: the read gives \<open>undefined\<close>.
\<close>

definition getVal :: "RuntimeValue \<Rightarrow> RuntimeValue" where
  "getVal entity = JsUndefined"

text \<open>\<open>entity.name\<close> of the \<open>Nameable\<close> classes; \<open>undefined\<close> printed in a template otherwise.\<close>

fun entityName :: "RuntimeValue \<Rightarrow> string" where
  "entityName (ScrapVariable c n v e) = n"
| "entityName (Defined f) = name f"
| "entityName (Native (ScrapNative n e a c)) = n"
| "entityName (ScrapModule n e h) = n"
| "entityName _ = ''undefined''"

section \<open>The interpreter\<close>

text \<open>
  Every method below that calls \<open>this.computeValue\<close> takes it as the parameter \<open>this\<close>;
  \<open>Interpreter\<close>, at the end, closes the recursion. The state is passed explicitly.
\<close>

type_synonym 'x Evaluator =
  "ValueNode \<Rightarrow> ScopeRef \<Rightarrow> 'x Runtime_scheme \<Rightarrow> (RuntimeValue, 'x Runtime_scheme) Outcome"

text \<open>
  What the interpreter imports from modules that are not among the sources, taken as
  parameters: the constant \<open>VERSION\<close>, the handlers \<open>fns.computeFn\<close>,
  \<open>vars.computeReassignment\<close>, \<open>mods.computeModuleAccess\<close>,
  \<open>objs.computeObjectDestruction\<close>, \<open>objs.computeObjectAccess\<close>, \<open>mods.computeMod\<close>,
  \<open>vars.computeVar\<close>, \<open>ctrls.computeIf\<close> (those that receive the interpreter receive
  \<open>this\<close>), the type guard \<open>guards.isDefinedFn\<close>, the method \<open>computeBinaryExpr\<close>, which
  the class calls and does not define, and the host callables of the native functions,
  by handle.
\<close>

record 'x Externals =
  VERSION :: string
  isDefinedFn :: "RuntimeValue \<Rightarrow> bool"
  computeFn :: "nat \<Rightarrow> ScopeRef \<Rightarrow> 'x Runtime_scheme \<Rightarrow> (RuntimeValue, 'x Runtime_scheme) Outcome"
  computeReassignment :: "'x Evaluator \<Rightarrow> nat \<Rightarrow> ScopeRef \<Rightarrow> 'x Runtime_scheme \<Rightarrow> (RuntimeValue, 'x Runtime_scheme) Outcome"
  computeModuleAccess :: "'x Evaluator \<Rightarrow> nat \<Rightarrow> ScopeRef \<Rightarrow> 'x Runtime_scheme \<Rightarrow> (RuntimeValue, 'x Runtime_scheme) Outcome"
  computeObjectDestruction :: "'x Evaluator \<Rightarrow> nat \<Rightarrow> ScopeRef \<Rightarrow> 'x Runtime_scheme \<Rightarrow> (RuntimeValue, 'x Runtime_scheme) Outcome"
  computeObjectAccess :: "'x Evaluator \<Rightarrow> nat \<Rightarrow> ScopeRef \<Rightarrow> 'x Runtime_scheme \<Rightarrow> (RuntimeValue, 'x Runtime_scheme) Outcome"
  computeBinaryExpr :: "'x Evaluator \<Rightarrow> nat \<Rightarrow> ScopeRef \<Rightarrow> 'x Runtime_scheme \<Rightarrow> (RuntimeValue, 'x Runtime_scheme) Outcome"
  computeMod :: "'x Evaluator \<Rightarrow> nat \<Rightarrow> ScopeRef \<Rightarrow> 'x Runtime_scheme \<Rightarrow> (RuntimeValue, 'x Runtime_scheme) Outcome"
  computeVar :: "'x Evaluator \<Rightarrow> nat \<Rightarrow> ScopeRef \<Rightarrow> 'x Runtime_scheme \<Rightarrow> (RuntimeValue, 'x Runtime_scheme) Outcome"
  computeIf :: "'x Evaluator \<Rightarrow> nat \<Rightarrow> ScopeRef \<Rightarrow> 'x Runtime_scheme \<Rightarrow> (unit, 'x Runtime_scheme) Outcome"
  getAction :: "nat \<Rightarrow> RuntimeValue list \<Rightarrow> 'x Runtime_scheme \<Rightarrow> (RuntimeValue, 'x Runtime_scheme) Outcome"

subsection \<open>\<open>addToScope\<close>\<close>

definition addToScope :: "RuntimeValue \<Rightarrow> ScopeRef \<Rightarrow> 'x Runtime_scheme \<Rightarrow> (RuntimeValue, 'x Runtime_scheme) Outcome" where
  "addToScope entity scope s =
     (case addEntry scope (entityName entity) entity s of
        (added, s') \<Rightarrow>
          if \<not> added
          then scrapRuntimeError
            (quoted (entityName entity) @ '' is already defined at '' @ quoted (getOwner (scopes s' scope)))
          else Returned entity s')"

subsection \<open>\<open>computeRestParameters\<close>\<close>

text \<open>
  One turn of the loops that bind a parameter by position (lines 88 to 93 and 123 to
  128): evaluate the argument in the caller's scope, then add a variable that is not
  const to the callee's scope. The result of \<open>addEntry\<close> is dropped, as in the source.
\<close>

definition bindPositional ::
  "'x Evaluator \<Rightarrow> DefinedFunction \<Rightarrow> ScopeRef \<Rightarrow> ScrapParam list \<Rightarrow> ValueNode list \<Rightarrow> nat
     \<Rightarrow> 'x Runtime_scheme \<Rightarrow> (unit, 'x Runtime_scheme) Outcome" where
  "bindPositional this callee calleerScope params args i s =
     andThen (this (args ! i) calleerScope s)
       (\<lambda>v s'. Returned ()
          (snd (addEntry (getScope callee) (pName (params ! i))
                  (ScrapVariable False (pName (params ! i)) v False) s')))"

text \<open>The descriptor that wraps each collected argument (lines 100 to 107).\<close>

definition restElement :: "RuntimeValue \<Rightarrow> RuntimeValue" where
  "restElement v =
     ScrapObjectProperty \<lparr>isStatic = True, visibility = ''public'', writeable = True\<rparr> v"

text \<open>
  \<open>restIdx = params.length - 1\<close>; \<open>slice(0, restIdx)\<close> is \<open>take restIdx\<close> and
  \<open>slice(restIdx, args.length)\<close> is \<open>drop restIdx\<close> when \<open>restIdx\<close> is not negative, that is
  when there is a parameter, which the only caller has checked. With no parameter at
  all \<open>restIdx\<close> is \<open>-1\<close>: \<open>args.slice(0, -1)\<close> drops the last argument, and once the
  count check has passed \<open>params[-1].pName\<close> reads a property of \<open>undefined\<close>.
\<close>

definition computeRestParameters ::
  "'x Evaluator \<Rightarrow> DefinedFunction \<Rightarrow> ScopeRef \<Rightarrow> ScrapParam list \<Rightarrow> ValueNode list
     \<Rightarrow> 'x Runtime_scheme \<Rightarrow> (unit, 'x Runtime_scheme) Outcome" where
  "computeRestParameters this callee calleerScope params args s =
     (if params = [] then
        (if butlast args \<noteq> []
         then scrapRuntimeError
           (quoted (name callee) @ '' expects from '' @ showNat 0
              @ '' to multiple arguments, but received '' @ showNat (length (butlast args)))
         else Raised HostTypeError)
      else
        (let restIdx = length params - 1;
             slicedParams = take restIdx params;
             slicedArgs = take restIdx args
         in if length slicedArgs \<noteq> length slicedParams
            then scrapRuntimeError
              (quoted (name callee) @ '' expects from '' @ showNat (length slicedParams)
                 @ '' to multiple arguments, but received '' @ showNat (length slicedArgs))
            else
              andThen
                (forEach [0..<length slicedParams]
                   (bindPositional this callee calleerScope params slicedArgs) s)
                (\<lambda>_ s1.
                   andThen
                     (mapEach (drop restIdx args) (\<lambda>node. this node calleerScope) s1)
                     (\<lambda>collected s2. Returned ()
                        (snd (addEntry (getScope callee) (pName (params ! (length params - 1)))
                                (ScrapVariable True (pName (params ! (length params - 1)))
                                   (ScrapArray (map restElement collected)) False) s2))))))"

subsection \<open>\<open>computeEntity\<close> and \<open>computeInstruction\<close>\<close>

definition unsupported :: "'x Externals \<Rightarrow> string \<Rightarrow> ('a, 's) Outcome" where
  "unsupported X constructorName =
     scrapRuntimeError
       (''ScrapLang '' @ VERSION X @ '' still doesn'' @ [CHR 0x27] @ ''t support ''
          @ quoted constructorName @ '' interpreting'')"

definition computeEntity ::
  "'x Externals \<Rightarrow> 'x Evaluator \<Rightarrow> EntityNode \<Rightarrow> ScopeRef \<Rightarrow> 'x Runtime_scheme
     \<Rightarrow> (RuntimeValue, 'x Runtime_scheme) Outcome" where
  "computeEntity X this node scope s =
     (case node of
        FunctionStmtNode h \<Rightarrow> computeFn X h scope s
      | ModuleNode h \<Rightarrow> computeMod X this h scope s
      | VariableNode h \<Rightarrow> computeVar X this h scope s
      | UnsupportedEntityNode constructorName \<Rightarrow> unsupported X constructorName)"

definition computeInstruction ::
  "'x Externals \<Rightarrow> 'x Evaluator \<Rightarrow> Instruction \<Rightarrow> ScopeRef \<Rightarrow> 'x Runtime_scheme
     \<Rightarrow> (unit, 'x Runtime_scheme) Outcome" where
  "computeInstruction X this node fnScope s =
     (case node of
        ValueInstr v \<Rightarrow> andThen (this v fnScope s) (\<lambda>_ s'. Returned () s')
      | ControlInstr c \<Rightarrow>
          (case c of
             IfNode h \<Rightarrow> computeIf X this h fnScope s
           | OtherControlNode h \<Rightarrow> Returned () s)
      | EntityInstr e \<Rightarrow>
          andThen (computeEntity X this e fnScope s)
            (\<lambda>entity s'. andThen (addToScope entity fnScope s') (\<lambda>_ s''. Returned () s'')))"

subsection \<open>\<open>execDefinedFunc\<close>\<close>

text \<open>
  The body of \<open>execDefinedFunc\<close> in its three consecutive parts.
  Lines 117 to 129: bind the parameters.
\<close>

definition bindParameters ::
  "'x Evaluator \<Rightarrow> CallNode \<Rightarrow> DefinedFunction \<Rightarrow> ScopeRef
     \<Rightarrow> 'x Runtime_scheme \<Rightarrow> (unit, 'x Runtime_scheme) Outcome" where
  "bindParameters this call callee calleerScope s =
     (let params = getParams callee;
          args = getArgs call
      in if params \<noteq> [] \<and> isRest (params ! (length params - 1))
         then computeRestParameters this callee calleerScope params args s
         else if length args \<noteq> length params
           then scrapRuntimeError
             (quoted (name callee) @ '' expects '' @ showNat (length (getParams callee))
                @ '' arguments, but received '' @ showNat (length (getArgs call)))
           else forEach [0..<length (getParams callee)]
                  (bindPositional this callee calleerScope params args) s)"

text \<open>Lines 131 and 132: the instructions of the body, in the scope passed as \<open>scope\<close>.\<close>

definition runBody ::
  "'x Externals \<Rightarrow> 'x Evaluator \<Rightarrow> DefinedFunction \<Rightarrow> ScopeRef
     \<Rightarrow> 'x Runtime_scheme \<Rightarrow> (unit, 'x Runtime_scheme) Outcome" where
  "runBody X this callee scope s =
     forEach (getBody callee) (\<lambda>instruction. computeInstruction X this instruction scope) s"

text \<open>
  Line 135: the return expression is an identifier and the callee's own table has an
  entry under its symbol.
\<close>

definition returnsLocal :: "DefinedFunction \<Rightarrow> 'x Runtime_scheme \<Rightarrow> bool" where
  "returnsLocal callee s =
     (case getReturnValue callee of
        IdentifierNode symbol \<Rightarrow> map_of (ownEntries s (getScope callee)) symbol \<noteq> None
      | _ \<Rightarrow> False)"

text \<open>Lines 134 to 143: the check on the return expression, \<open>clean()\<close>, the return value.\<close>

definition finishCall ::
  "'x Evaluator \<Rightarrow> DefinedFunction \<Rightarrow> ScopeRef
     \<Rightarrow> 'x Runtime_scheme \<Rightarrow> (RuntimeValue, 'x Runtime_scheme) Outcome" where
  "finishCall this callee scope s =
     (if returnsLocal callee s
      then scrapRuntimeError
        (''You returned a locally scoped value in '' @ quoted (name callee)
           @ '', which will be destroyed after the execution ends'')
      else
        (let s' = clean (getScope callee) s
         in if getReturnValue callee = UndefinedNode
            then Returned ScrapUndefined s'
            else this (getReturnValue callee) scope s'))"

definition execDefinedFunc ::
  "'x Externals \<Rightarrow> 'x Evaluator \<Rightarrow> CallNode \<Rightarrow> DefinedFunction \<Rightarrow> ScopeRef \<Rightarrow> ScopeRef
     \<Rightarrow> 'x Runtime_scheme \<Rightarrow> (RuntimeValue, 'x Runtime_scheme) Outcome" where
  "execDefinedFunc X this call callee scope calleerScope s =
     andThen (bindParameters this call callee calleerScope s)
       (\<lambda>_ s1. andThen (runBody X this callee scope s1)
          (\<lambda>_ s2. finishCall this callee scope s2))"

subsection \<open>\<open>execCallee\<close>, \<open>findCallee\<close>, \<open>computeCall\<close>\<close>

text \<open>
  \<open>callee.getArgsCount && call.getArgs.length > callee.getArgsCount\<close>: a count of zero is
  falsy; \<open>true\<close> is truthy, compares as the number 1 and prints as \<open>true\<close>.
\<close>

fun argsCountTruthy :: "ArgsCount \<Rightarrow> bool" where
  "argsCountTruthy (Count n) = (n \<noteq> 0)"
| "argsCountTruthy AnyCount = True"

fun argsCountNumber :: "ArgsCount \<Rightarrow> nat" where
  "argsCountNumber (Count n) = n"
| "argsCountNumber AnyCount = 1"

fun showArgsCount :: "ArgsCount \<Rightarrow> string" where
  "showArgsCount (Count n) = showNat n"
| "showArgsCount AnyCount = ''true''"

text \<open>
  A callee that is neither native nor a defined function is cast to \<open>DefinedFunction\<close>,
  and \<open>execDefinedFunc\<close> then reads the length of its \<open>getParams\<close>, which is \<open>undefined\<close>.
\<close>

definition execCallee ::
  "'x Externals \<Rightarrow> 'x Evaluator \<Rightarrow> CallNode \<Rightarrow> RuntimeValue \<Rightarrow> ScopeRef
     \<Rightarrow> 'x Runtime_scheme \<Rightarrow> (RuntimeValue, 'x Runtime_scheme) Outcome" where
  "execCallee X this call callee scope s =
     (case callee of
        Native (ScrapNative nativeName exported action argsCount) \<Rightarrow>
          if argsCountTruthy argsCount \<and> length (getArgs call) > argsCountNumber argsCount
          then this_scrapRuntimeError
            (quoted nativeName @ '' expects '' @ showArgsCount argsCount @ '' arguments, but ''
               @ showNat (length (getArgs call)) @ '' has been received'')
          else andThen (mapEach (getArgs call) (\<lambda>arg. this arg scope) s)
                 (\<lambda>values s'. getAction X action values s')
      | Defined f \<Rightarrow> execDefinedFunc X this call f (getScope f) scope s
      | _ \<Rightarrow> Raised HostTypeError)"

definition findCallee ::
  "'x Externals \<Rightarrow> CallNode \<Rightarrow> ScopeRef
     \<Rightarrow> 'x Runtime_scheme \<Rightarrow> (RuntimeValue, 'x Runtime_scheme) Outcome" where
  "findCallee X call whereIsCallee s =
     (case scopeGet s whereIsCallee (getCallee call) of
        None \<Rightarrow> Diverged
      | Some callee \<Rightarrow>
          if callee = JsUndefined then this_scrapReferenceError
          else if isVariable callee then
            (if \<not> isDefinedFn X (getVal callee)
             then this_scrapRuntimeError
               (''The expression is not callable. '' @ quoted (getCallee call)
                  @ '' doesn'' @ [CHR 0x27] @ ''t contains values with call signatures'')
             else Returned (getAssignedValue callee) s)
          else Returned callee s)"

definition computeCall ::
  "'x Externals \<Rightarrow> 'x Evaluator \<Rightarrow> CallNode \<Rightarrow> ScopeRef
     \<Rightarrow> 'x Runtime_scheme \<Rightarrow> (RuntimeValue, 'x Runtime_scheme) Outcome" where
  "computeCall X this call scope s =
     andThen (findCallee X call scope s) (\<lambda>callee s'. execCallee X this call callee scope s')"

subsection \<open>\<open>computeIdentifier\<close>, \<open>computeLitObj\<close>, \<open>computeLitArr\<close>\<close>

definition computeIdentifier ::
  "string \<Rightarrow> ScopeRef \<Rightarrow> 'x Runtime_scheme \<Rightarrow> (RuntimeValue, 'x Runtime_scheme) Outcome" where
  "computeIdentifier symbol scope s =
     (case getReference s scope symbol of
        None \<Rightarrow> Diverged
      | Some referred \<Rightarrow>
          if referred = JsUndefined then this_scrapReferenceError
          else
            (let storedValue = (if isVariable referred then getAssignedValue referred else referred)
             in Returned
                  (if isScrapPrimitive storedValue then ScrapValue (HostPayload storedValue)
                   else storedValue) s))"

text \<open>
  \<open>for (const entry of entries) mappedValues.set(entry[0], this.computeValue(entry[1], scope))\<close>:
  the evaluated value itself is stored under the key.
\<close>

fun computeLitObj_entries ::
  "'x Evaluator \<Rightarrow> (string \<times> ValueNode) list \<Rightarrow> ScopeRef \<Rightarrow> (string \<times> RuntimeValue) list
     \<Rightarrow> 'x Runtime_scheme \<Rightarrow> ((string \<times> RuntimeValue) list, 'x Runtime_scheme) Outcome" where
  "computeLitObj_entries this [] scope mappedValues s = Returned mappedValues s"
| "computeLitObj_entries this (entry # rest) scope mappedValues s =
     andThen (this (snd entry) scope s)
       (\<lambda>v s'. computeLitObj_entries this rest scope (AList.update (fst entry) v mappedValues) s')"

definition computeLitObj ::
  "'x Evaluator \<Rightarrow> (string \<times> ValueNode) list \<Rightarrow> ScopeRef
     \<Rightarrow> 'x Runtime_scheme \<Rightarrow> (RuntimeValue, 'x Runtime_scheme) Outcome" where
  "computeLitObj this pairs scope s =
     andThen (computeLitObj_entries this pairs scope [] s)
       (\<lambda>mappedValues s'. Returned (ObjectValue (ScrapObject None (Some mappedValues))) s')"

text \<open>
  \<open>private computeLitArr(node, scope): ScrapArray<ScrapValue> { }\<close>: the body is empty.
  Nothing is evaluated, and the caller receives the host's \<open>undefined\<close>.
\<close>

definition computeLitArr ::
  "ValueNode list \<Rightarrow> ScopeRef \<Rightarrow> 'x Runtime_scheme \<Rightarrow> (RuntimeValue, 'x Runtime_scheme) Outcome" where
  "computeLitArr elements scope s = Returned JsUndefined s"

subsection \<open>\<open>computeValue\<close>\<close>

text \<open>
  The chain of kind tests, in the order of the source. The node of an "undefined"
  expression, which \<open>execDefinedFunc\<close> recognises with \<open>isUndefined()\<close>, is none of the
  kinds tested here and reaches the final error as every other kind does.
\<close>

definition computeValue :: "'x Externals \<Rightarrow> 'x Evaluator \<Rightarrow> 'x Evaluator" where
  "computeValue X this node scope s =
     (case node of
        FunctionExprNode h \<Rightarrow> computeFn X h scope s
      | ReassignmentNode h \<Rightarrow> computeReassignment X this h scope s
      | ModuleAccessNode h \<Rightarrow> computeModuleAccess X this h scope s
      | ObjectDestructionNode h \<Rightarrow> computeObjectDestruction X this h scope s
      | ObjectAccessNode h \<Rightarrow> computeObjectAccess X this h scope s
      | BinaryExprNode h \<Rightarrow> computeBinaryExpr X this h scope s
      | CallExpr callee args \<Rightarrow> computeCall X this (callee, args) scope s
      | IdentifierNode symbol \<Rightarrow> computeIdentifier symbol scope s
      | LiteralObjectNode pairs \<Rightarrow> computeLitObj this pairs scope s
      | LiteralArrayNode elements \<Rightarrow> computeLitArr elements scope s
      | StringNode v \<Rightarrow> Returned (ScrapString v) s
      | NumericNode v \<Rightarrow> Returned (IntegerValue (ScrapInteger v)) s
      | FloatNode v \<Rightarrow> Returned (ScrapFloat v) s
      | CharNode v \<Rightarrow> Returned (ScrapChar v) s
      | UndefinedNode \<Rightarrow> unsupported X ''UndefinedNode''
      | UnsupportedNode constructorName \<Rightarrow> unsupported X constructorName)"

text \<open>
  The interpreter proper: \<open>this.computeValue\<close> is \<open>computeValue\<close> again. The number
  bounds how deep evaluations may nest inside one another; a run that nests deeper
  has not come back within the bound.
\<close>

primrec Interpreter :: "'x Externals \<Rightarrow> nat \<Rightarrow> 'x Evaluator" where
  "Interpreter X 0 = (\<lambda>node scope s. Diverged)"
| "Interpreter X (Suc depth) = computeValue X (Interpreter X depth)"

section \<open>Sample programs\<close>

text \<open>
  Concrete inputs on which the statements below are run. \<open>hostOnly\<close> stands for an
  installation in which \<open>isDefinedFn\<close> is the test \<open>instanceof DefinedFunction\<close> and every
  handler of the other modules fails at once; the programs run on it use literals,
  identifiers and calls only. \<open>globalsWith table\<close> is a store
  whose scope 0 is the root scope \<open>main\<close> holding \<open>table\<close>, and whose every other scope
  is an empty function scope with the root as parent.
\<close>

definition hostOnly :: "unit Externals" where
  "hostOnly =
     \<lparr>VERSION = ''0.1'',
      isDefinedFn = (\<lambda>v. case v of Defined f \<Rightarrow> True | _ \<Rightarrow> False),
      computeFn = (\<lambda>h scope s. Raised HostTypeError),
      computeReassignment = (\<lambda>this h scope s. Raised HostTypeError),
      computeModuleAccess = (\<lambda>this h scope s. Raised HostTypeError),
      computeObjectDestruction = (\<lambda>this h scope s. Raised HostTypeError),
      computeObjectAccess = (\<lambda>this h scope s. Raised HostTypeError),
      computeBinaryExpr = (\<lambda>this h scope s. Raised HostTypeError),
      computeMod = (\<lambda>this h scope s. Raised HostTypeError),
      computeVar = (\<lambda>this h scope s. Raised HostTypeError),
      computeIf = (\<lambda>this h scope s. Raised HostTypeError),
      getAction = (\<lambda>action values s. Raised HostTypeError)\<rparr>"

definition emptyFn :: DefinedFunction where
  "emptyFn = \<lparr>name = ''f'', isExported = False, getScope = 1, getParams = [],
              getBody = [], getReturnValue = UndefinedNode\<rparr>"

definition globalsWith :: "(string \<times> RuntimeValue) list \<Rightarrow> Runtime" where
  "globalsWith table =
     \<lparr>scopes = (\<lambda>ref. if ref = 0
                  then \<lparr>getOwner = ''main'', parent = None, getEntries = table\<rparr>
                  else \<lparr>getOwner = ''f'', parent = Some 0, getEntries = []\<rparr>)\<rparr>"

definition addFn :: DefinedFunction where
  "addFn = \<lparr>name = ''add'', isExported = False, getScope = 1,
            getParams = [\<lparr>pName = ''a'', isRest = False\<rparr>, \<lparr>pName = ''b'', isRest = False\<rparr>],
            getBody = [], getReturnValue = UndefinedNode\<rparr>"

definition pairFn :: DefinedFunction where
  "pairFn = \<lparr>name = ''f'', isExported = False, getScope = 1,
             getParams = [\<lparr>pName = ''a'', isRest = False\<rparr>, \<lparr>pName = ''b'', isRest = False\<rparr>],
             getBody = [], getReturnValue = UndefinedNode\<rparr>"

definition restFn :: DefinedFunction where
  "restFn = \<lparr>name = ''f'', isExported = False, getScope = 1,
             getParams = [\<lparr>pName = ''a'', isRest = False\<rparr>, \<lparr>pName = ''rest'', isRest = True\<rparr>],
             getBody = [], getReturnValue = UndefinedNode\<rparr>"

text \<open>
  \<open>declaringVars\<close> is \<open>hostOnly\<close> with a \<open>vars.computeVar\<close> that turns the variable node
  with handle \<open>h\<close> into the declaration \<open>var local = h\<close>. \<open>leakFn\<close> declares \<open>local\<close> in its
  body and returns it; \<open>wrapFn\<close> declares it and returns an object literal; \<open>quietFn\<close>
  takes one parameter, declares \<open>local\<close> and returns the "undefined" expression.
\<close>

definition declaringVars :: "unit Externals" where
  "declaringVars =
     hostOnly\<lparr>computeVar :=
       (\<lambda>this h scope s. Returned (ScrapVariable False ''local'' (IntegerValue (ScrapInteger (int h))) False) s)\<rparr>"

definition leakFn :: DefinedFunction where
  "leakFn = \<lparr>name = ''leak'', isExported = False, getScope = 1, getParams = [],
             getBody = [EntityInstr (VariableNode 7)], getReturnValue = IdentifierNode ''local''\<rparr>"

definition wrapFn :: DefinedFunction where
  "wrapFn = \<lparr>name = ''wrap'', isExported = False, getScope = 1, getParams = [],
             getBody = [EntityInstr (VariableNode 7)],
             getReturnValue = LiteralObjectNode [(''v'', NumericNode 7)]\<rparr>"

definition quietFn :: DefinedFunction where
  "quietFn = \<lparr>name = ''quiet'', isExported = False, getScope = 1,
             getParams = [\<lparr>pName = ''a'', isRest = False\<rparr>],
             getBody = [EntityInstr (VariableNode 7)], getReturnValue = UndefinedNode\<rparr>"

section \<open>The value model, verified\<close>

text \<open>
  C1. \<open>increment(v)\<close> should return a new Integer holding \<open>v + 1\<close> and leave \<open>v\<close> as it
  was, and \<open>decrement(v)\<close> likewise with \<open>v - 1\<close>. The code does the opposite on both
  counts, for every \<open>v\<close>: the new Integer holds \<open>v\<close> itself and the receiver is left
  holding \<open>v + 1\<close> (\<open>v - 1\<close>). On the Integer 5, \<open>increment\<close> returns a new Integer 5
  and leaves 6 in the receiver; \<open>decrement\<close> returns 5 and leaves 4.
\<close>

theorem increment_decrement_postfix:
  "increment (ScrapInteger v) = (ScrapInteger v, ScrapInteger (v + 1)) \<and>
   decrement (ScrapInteger v) = (ScrapInteger v, ScrapInteger (v - 1)) \<and>
   increment (ScrapInteger 5) = (ScrapInteger 5, ScrapInteger 6) \<and>
   decrement (ScrapInteger 5) = (ScrapInteger 5, ScrapInteger 4)"
  by (simp add: increment_def decrement_def)

text \<open>
  The object of the next statements: a prototype that binds \<open>x\<close> to the Integer 1.
  Against C2 as the specification words it (a name absent from the own table and bound
  in the prototype yields the prototype's value): on an object with an empty own table
  and that prototype, \<open>get\<close> of \<open>x\<close> is the Undefined sentinel, while the prototype itself
  gives the Integer 1.
\<close>

theorem get_skips_prototype_counterexample:
  "get (ScrapObject
          (Some (ScrapObject None
             (Some [(''x'', ScrapObjectProperty \<lparr>isStatic = True, visibility = ''public'', writeable = True\<rparr>
                        (IntegerValue (ScrapInteger 1)))])))
          (Some [])) ''x'' = Inr ScrapUndefined
   \<and> get (ScrapObject None
             (Some [(''x'', ScrapObjectProperty \<lparr>isStatic = True, visibility = ''public'', writeable = True\<rparr>
                        (IntegerValue (ScrapInteger 1)))])) ''x'' = Inr (IntegerValue (ScrapInteger 1))"
  by (simp add: get_def)

text \<open>
  C2, as the code has it. For every object and name, what \<open>get\<close> gives does not depend
  on the prototype: it is the same whatever the prototype reference is, table or no
  table. On an object that carries a property table, a name absent from the own table
  yields the Undefined sentinel, whether or not the prototype chain binds it, and a name
  bound to a descriptor in the own table yields the descriptor's value. (What \<open>get\<close> does
  on an object built without a table belongs to C9.)
\<close>

theorem get_own_table_only:
  "get (ScrapObject p t) key = get (ScrapObject None t) key
   \<and> (map_of tbl key = None \<longrightarrow> get (ScrapObject p (Some tbl)) key = Inr ScrapUndefined)
   \<and> (map_of tbl key = Some (ScrapObjectProperty m v) \<longrightarrow>
         get (ScrapObject p (Some tbl)) key = Inr v)"
  by (simp add: get_def)

theorem get_own_table_only_witness:
  "get (ScrapObject
          (Some (ScrapObject None
             (Some [(''x'', ScrapObjectProperty \<lparr>isStatic = True, visibility = ''public'', writeable = True\<rparr>
                        (IntegerValue (ScrapInteger 1)))])))
          (Some [(''y'', ScrapObjectProperty \<lparr>isStatic = False, visibility = ''public'', writeable = True\<rparr>
                        (ScrapString ''s''))])) ''x'' = Inr ScrapUndefined
   \<and> get (ScrapObject
          (Some (ScrapObject None
             (Some [(''x'', ScrapObjectProperty \<lparr>isStatic = True, visibility = ''public'', writeable = True\<rparr>
                        (IntegerValue (ScrapInteger 1)))])))
          (Some [(''y'', ScrapObjectProperty \<lparr>isStatic = False, visibility = ''public'', writeable = True\<rparr>
                        (ScrapString ''s''))])) ''y'' = Inr (ScrapString ''s'')"
proof -
  let ?proto = "ScrapObject None
             (Some [(''x'', ScrapObjectProperty \<lparr>isStatic = True, visibility = ''public'', writeable = True\<rparr>
                        (IntegerValue (ScrapInteger 1)))])"
  let ?d = "ScrapObjectProperty \<lparr>isStatic = False, visibility = ''public'', writeable = True\<rparr>
                        (ScrapString ''s'')"
  have absent: "map_of [(''y'', ?d)] ''x'' = None" by simp
  have present: "map_of [(''y'', ?d)] ''y'' = Some ?d" by simp
  from absent present
    get_own_table_only [of "Some ?proto" _ "''x''" "[(''y'', ?d)]"]
    get_own_table_only [of "Some ?proto" _ "''y''" "[(''y'', ?d)]"
       "\<lparr>isStatic = False, visibility = ''public'', writeable = True\<rparr>" "ScrapString ''s''"]
  show ?thesis by blast
qed

text \<open>
  C9. After \<open>obj.set(key, descriptor)\<close>, \<open>obj.get(key)\<close> should be the descriptor's value
  and \<open>obj.has(key)\<close> true, for every object. A function is an object, and every
  function object is built by \<open>super(null)\<close>, without a property table: on it \<open>set\<close>
  throws the host's TypeError, and so do \<open>get\<close> and \<open>has\<close>, whatever the key and the
  descriptor. On an object that does carry a table, whatever it holds, the three methods
  do what the claim says: \<open>set\<close> writes the own table and keeps the prototype reference,
  \<open>get\<close> then gives the descriptor's value and \<open>has\<close> is true.
\<close>

theorem set_get_has_need_a_table:
  "objectOf (Defined f) = Some (ScrapObject None None)
   \<and> set_obj (ScrapObject None None) key d = Inl HostTypeError
   \<and> get (ScrapObject None None) key = Inl HostTypeError
   \<and> has (ScrapObject None None) key = Inl HostTypeError
   \<and> set_obj (ScrapObject p (Some tbl)) key (ScrapObjectProperty m v)
        = Inr (ScrapObject p (Some (AList.update key (ScrapObjectProperty m v) tbl)))
   \<and> get (ScrapObject p (Some (AList.update key (ScrapObjectProperty m v) tbl))) key = Inr v
   \<and> has (ScrapObject p (Some (AList.update key (ScrapObjectProperty m v) tbl))) key = Inr True"
  by (simp add: get_def set_obj_def has_def update_conv')

text \<open>
  C10. \<open>has\<close> should answer, for every object and name, whether the name is a key of the
  object's own table. On a function object, built by \<open>super(null)\<close> without a table, it
  does not answer: it throws the host's TypeError. On an object that carries a table it
  is true exactly when the name is a key of that table, whatever the prototype is; so a
  name that only the prototype binds is not had.
\<close>

theorem has_needs_a_table:
  "objectOf (Defined f) = Some (ScrapObject None None)
   \<and> has (ScrapObject None None) key = Inl HostTypeError
   \<and> has (ScrapObject p (Some tbl)) key = Inr (key \<in> fst ` set tbl)
   \<and> has (ScrapObject (Some (ScrapObject None (Some [(''x'', restElement ScrapUndefined)])))
          (Some [(''y'', restElement ScrapUndefined)])) ''x'' = Inr False"
  by (simp add: has_def map_of_eq_None_iff)

section \<open>The interpreter, verified\<close>

text \<open>
  C3. An array literal that reaches \<open>computeValue\<close> should have each element evaluated in
  the current scope, in order, and yield an array of the results. \<open>computeLitArr\<close> has an
  empty body: whatever the elements, nothing is evaluated, the state is untouched, and
  the value handed back is the host's \<open>undefined\<close>, not an array. So it is for the
  literal \<open>[1, 2]\<close>.
\<close>

theorem array_literal_not_built:
  "computeValue X this (LiteralArrayNode elements) scope s = Returned JsUndefined s
   \<and> Interpreter X (Suc depth) (LiteralArrayNode [NumericNode 1, NumericNode 2]) scope s
       = Returned JsUndefined s"
  by (simp add: computeValue_def computeLitArr_def)

text \<open>
  C8. A call whose target name is absent from the scope chain should fail with the
  unresolved-reference error, and one whose target resolves to a Variable should go
  ahead exactly when the Variable's assigned value is a function and fail as not
  callable otherwise. \<open>findCallee\<close> hands the guard \<open>callee.getVal\<close>, a member that
  \<open>ScrapVariable\<close> does not have, so the guard is asked about \<open>undefined\<close>, which no type
  guard accepts: a call through a Variable never goes ahead, whatever the Variable
  holds, a defined function included. And both error paths call a member that the class
  \<open>Interpreter\<close> does not have: what is thrown, for a Variable as for an absent name, is
  the host's TypeError, neither of the two errors of the language.
\<close>

theorem call_through_variable_never_proceeds:
  "(\<not> isDefinedFn X JsUndefined
      \<and> scopeGet s whereIsCallee callee = Some (ScrapVariable isConst key val exported)
     \<longrightarrow> findCallee X (callee, args) whereIsCallee s = Raised HostTypeError)
   \<and> (scopeGet s whereIsCallee callee = Some JsUndefined
     \<longrightarrow> findCallee X (callee, args) whereIsCallee s = Raised HostTypeError)"
  by (simp add: findCallee_def getCallee_def getVal_def this_scrapRuntimeError_def
        this_scrapReferenceError_def)

theorem call_through_variable_never_proceeds_witness:
  "isDefinedFn hostOnly (Defined emptyFn)
   \<and> scopeGet (globalsWith [(''g'', ScrapVariable False ''g'' (Defined emptyFn) False)]) 0 ''g''
     = Some (ScrapVariable False ''g'' (Defined emptyFn) False)
   \<and> findCallee hostOnly (''g'', [])
       0 (globalsWith [(''g'', ScrapVariable False ''g'' (Defined emptyFn) False)])
     = Raised HostTypeError
   \<and> scopeGet (globalsWith [(''g'', ScrapVariable False ''g'' (Defined emptyFn) False)]) 0 ''h''
     = Some JsUndefined
   \<and> findCallee hostOnly (''h'', [])
       0 (globalsWith [(''g'', ScrapVariable False ''g'' (Defined emptyFn) False)])
     = Raised HostTypeError"
proof -
  let ?s = "globalsWith [(''g'', ScrapVariable False ''g'' (Defined emptyFn) False)]"
  have guard: "\<not> isDefinedFn hostOnly JsUndefined" and fn: "isDefinedFn hostOnly (Defined emptyFn)"
    by (simp_all add: hostOnly_def)
  have found: "scopeGet ?s 0 ''g'' = Some (ScrapVariable False ''g'' (Defined emptyFn) False)"
    by (simp add: scopeGet_def getReference.simps ownEntries_def globalsWith_def)
  have absent: "scopeGet ?s 0 ''h'' = Some JsUndefined"
    by (simp add: scopeGet_def getReference.simps ownEntries_def globalsWith_def)
  from guard fn found absent
    call_through_variable_never_proceeds [where X = hostOnly and s = ?s and whereIsCallee = 0
      and callee = "''g''" and isConst = False and key = "''g''" and val = "Defined emptyFn"
      and exported = False and args = "[]"]
    call_through_variable_never_proceeds [where X = hostOnly and s = ?s and whereIsCallee = 0
      and callee = "''h''" and isConst = False and key = "''g''" and val = "Defined emptyFn"
      and exported = False and args = "[]"]
  show ?thesis by blast
qed

subsection \<open>Binding parameters\<close>

lemma addEntry_fresh:
  "map_of (ownEntries s ref) key = None \<Longrightarrow>
   ownEntries (snd (addEntry ref key e s)) ref = ownEntries s ref @ [(key, e)]"
  by (simp add: addEntry_def ownEntries_def)

lemma bindPositional_loop:
  assumes ev: "\<And>a st. a \<in> A \<Longrightarrow> P st \<Longrightarrow>
      \<exists>v st'. this a calleerScope st = Returned v st' \<and> P st'
        \<and> ownEntries st' (getScope callee) = ownEntries st (getScope callee)"
    and ins: "\<And>st key e. P st \<Longrightarrow> P (snd (addEntry (getScope callee) key e st))"
  shows "P s \<Longrightarrow> \<forall>i\<in>set js. args ! i \<in> A \<Longrightarrow>
     distinct (map (\<lambda>i. pName (params ! i)) js) \<Longrightarrow>
     \<forall>i\<in>set js. map_of (ownEntries s (getScope callee)) (pName (params ! i)) = None \<Longrightarrow>
     \<exists>s1. forEach js (bindPositional this callee calleerScope params args) s = Returned () s1
        \<and> P s1
        \<and> (\<forall>i\<in>set js. \<exists>v sa sb. P sa \<and> this (args ! i) calleerScope sa = Returned v sb
              \<and> map_of (ownEntries s1 (getScope callee)) (pName (params ! i))
                  = Some (ScrapVariable False (pName (params ! i)) v False))
        \<and> (\<forall>key. key \<notin> (\<lambda>i. pName (params ! i)) ` set js \<longrightarrow>
              map_of (ownEntries s1 (getScope callee)) key = map_of (ownEntries s (getScope callee)) key)"
proof (induction js arbitrary: s)
  case Nil
  then show ?case by simp
next
  case (Cons i js)
  let ?ref = "getScope callee"
  let ?k = "pName (params ! i)"
  from Cons.prems have "args ! i \<in> A" by simp
  from ev [OF this Cons.prems(1)] obtain v st' where
    run: "this (args ! i) calleerScope s = Returned v st'" and p': "P st'"
    and same: "ownEntries st' ?ref = ownEntries s ?ref" by blast
  let ?var = "ScrapVariable False ?k v False"
  let ?s2 = "snd (addEntry ?ref ?k ?var st')"
  from Cons.prems(4) same have fresh: "map_of (ownEntries st' ?ref) ?k = None" by simp
  have tbl2: "ownEntries ?s2 ?ref = ownEntries s ?ref @ [(?k, ?var)]"
    using addEntry_fresh [OF fresh] same by simp
  have p2: "P ?s2" using ins [OF p'] .
  have notin: "?k \<notin> (\<lambda>j. pName (params ! j)) ` set js" using Cons.prems(3) by auto
  have fresh2: "\<forall>j\<in>set js. map_of (ownEntries ?s2 ?ref) (pName (params ! j)) = None"
  proof
    fix j assume j: "j \<in> set js"
    with notin have "pName (params ! j) \<noteq> ?k" by (metis imageI)
    moreover from Cons.prems(4) j have "map_of (ownEntries s ?ref) (pName (params ! j)) = None" by simp
    ultimately show "map_of (ownEntries ?s2 ?ref) (pName (params ! j)) = None"
      by (simp add: tbl2 map_add_def)
  qed
  from Cons.prems have "\<forall>j\<in>set js. args ! j \<in> A" and "distinct (map (\<lambda>i. pName (params ! i)) js)"
    by simp_all
  from Cons.IH [OF p2 this fresh2] obtain s1 where
    loop: "forEach js (bindPositional this callee calleerScope params args) ?s2 = Returned () s1"
    and p1: "P s1"
    and bound: "\<forall>j\<in>set js. \<exists>v sa sb. P sa \<and> this (args ! j) calleerScope sa = Returned v sb
              \<and> map_of (ownEntries s1 ?ref) (pName (params ! j))
                  = Some (ScrapVariable False (pName (params ! j)) v False)"
    and kept: "\<forall>key. key \<notin> (\<lambda>i. pName (params ! i)) ` set js \<longrightarrow>
              map_of (ownEntries s1 ?ref) key = map_of (ownEntries ?s2 ?ref) key"
    by blast
  have whole: "forEach (i # js) (bindPositional this callee calleerScope params args) s = Returned () s1"
    using run loop by (simp add: bindPositional_def)
  from kept notin have "map_of (ownEntries s1 ?ref) ?k = map_of (ownEntries ?s2 ?ref) ?k" by blast
  also have "\<dots> = Some ?var" using Cons.prems(4) by (simp add: tbl2 map_add_def)
  finally have here: "map_of (ownEntries s1 ?ref) ?k = Some ?var" .
  have first: "\<exists>v sa sb. P sa \<and> this (args ! i) calleerScope sa = Returned v sb
      \<and> map_of (ownEntries s1 ?ref) ?k = Some (ScrapVariable False ?k v False)"
    using Cons.prems(1) run here by blast
  have others: "\<forall>key. key \<notin> (\<lambda>i. pName (params ! i)) ` set (i # js) \<longrightarrow>
      map_of (ownEntries s1 ?ref) key = map_of (ownEntries s ?ref) key"
  proof (intro allI impI)
    fix key assume "key \<notin> (\<lambda>i. pName (params ! i)) ` set (i # js)"
    then have a: "key \<noteq> ?k" and b: "key \<notin> (\<lambda>i. pName (params ! i)) ` set js" by auto
    from kept b have "map_of (ownEntries s1 ?ref) key = map_of (ownEntries ?s2 ?ref) key" by blast
    also have "\<dots> = map_of (ownEntries s ?ref) key" using a
      by (simp add: tbl2 map_add_def split: option.splits)
    finally show "map_of (ownEntries s1 ?ref) key = map_of (ownEntries s ?ref) key" .
  qed
  from whole p1 first bound others show ?case by auto
qed

lemma mapEach_collects:
  assumes ev: "\<And>a st. a \<in> A \<Longrightarrow> P st \<Longrightarrow>
      \<exists>v st'. this a calleerScope st = Returned v st' \<and> P st'
        \<and> ownEntries st' ref = ownEntries st ref"
  shows "P s \<Longrightarrow> set xs \<subseteq> A \<Longrightarrow>
     \<exists>vs s2. mapEach xs (\<lambda>node. this node calleerScope) s = Returned vs s2 \<and> P s2
        \<and> ownEntries s2 ref = ownEntries s ref \<and> length vs = length xs
        \<and> (\<forall>j<length xs. \<exists>sa sb. P sa \<and> this (xs ! j) calleerScope sa = Returned (vs ! j) sb)"
proof (induction xs arbitrary: s)
  case Nil
  then show ?case by simp
next
  case (Cons x xs)
  from Cons.prems have "x \<in> A" by simp
  from ev [OF this Cons.prems(1)] obtain v st' where
    run: "this x calleerScope s = Returned v st'" and p': "P st'"
    and same: "ownEntries st' ref = ownEntries s ref" by blast
  from Cons.prems have "set xs \<subseteq> A" by simp
  from Cons.IH [OF p' this] obtain vs s2 where
    rest: "mapEach xs (\<lambda>node. this node calleerScope) st' = Returned vs s2" and p2: "P s2"
    and same2: "ownEntries s2 ref = ownEntries st' ref" and len: "length vs = length xs"
    and each: "\<forall>j<length xs. \<exists>sa sb. P sa \<and> this (xs ! j) calleerScope sa = Returned (vs ! j) sb"
    by blast
  have whole: "mapEach (x # xs) (\<lambda>node. this node calleerScope) s = Returned (v # vs) s2"
    using run rest by simp
  have each': "\<forall>j<length (x # xs). \<exists>sa sb. P sa \<and> this ((x # xs) ! j) calleerScope sa = Returned ((v # vs) ! j) sb"
  proof (intro allI impI)
    fix j assume j: "j < length (x # xs)"
    show "\<exists>sa sb. P sa \<and> this ((x # xs) ! j) calleerScope sa = Returned ((v # vs) ! j) sb"
    proof (cases j)
      case 0
      with run Cons.prems(1) show ?thesis by auto
    next
      case (Suc k)
      with j each show ?thesis by simp
    qed
  qed
  from whole p2 same same2 len each' show ?case by auto
qed

lemma computeRestParameters_enough:
  assumes "params \<noteq> []" and "length params - 1 \<le> length args"
  shows "computeRestParameters this callee calleerScope params args s =
     andThen
       (forEach [0..<length params - 1]
          (bindPositional this callee calleerScope params (take (length params - 1) args)) s)
       (\<lambda>_ s1.
          andThen
            (mapEach (drop (length params - 1) args) (\<lambda>node. this node calleerScope) s1)
            (\<lambda>collected s2. Returned ()
               (snd (addEntry (getScope callee) (pName (last params))
                       (ScrapVariable True (pName (last params))
                          (ScrapArray (map restElement collected)) False) s2))))"
proof -
  have lp: "length (take (length params - Suc 0) params) = length params - Suc 0" by simp
  have la: "length (take (length params - Suc 0) args) = length params - Suc 0" using assms(2) by simp
  show ?thesis
    using assms(1) by (simp add: computeRestParameters_def Let_def last_conv_nth lp la del: length_take)
qed

lemma computeRestParameters_short:
  assumes "params \<noteq> []" and "length args < length params - 1"
  shows "computeRestParameters this callee calleerScope params args s =
     Raised (RuntimeError (quoted (name callee) @ '' expects from '' @ showNat (length params - 1)
        @ '' to multiple arguments, but received '' @ showNat (length args)))"
proof -
  have lp: "length (take (length params - Suc 0) params) = length params - Suc 0" by simp
  have la: "length (take (length params - Suc 0) args) = length args" using assms(2) by simp
  show ?thesis
    using assms by (simp add: computeRestParameters_def Let_def scrapRuntimeError_def lp la del: length_take)
qed

lemma bindParameters_rest:
  "getParams callee \<noteq> [] \<and> isRest (last (getParams callee)) \<Longrightarrow>
   bindParameters this call callee calleerScope s =
     computeRestParameters this callee calleerScope (getParams callee) (getArgs call) s"
  by (auto simp add: bindParameters_def Let_def last_conv_nth)

lemma bindParameters_exact:
  "\<not> (getParams callee \<noteq> [] \<and> isRest (last (getParams callee))) \<Longrightarrow>
   bindParameters this call callee calleerScope s =
     (if length (getArgs call) \<noteq> length (getParams callee)
      then Raised (RuntimeError (quoted (name callee) @ '' expects ''
             @ showNat (length (getParams callee)) @ '' arguments, but received ''
             @ showNat (length (getArgs call))))
      else forEach [0..<length (getParams callee)]
             (bindPositional this callee calleerScope (getParams callee) (getArgs call)) s)"
  by (auto simp add: bindParameters_def Let_def last_conv_nth scrapRuntimeError_def)

text \<open>
  Against C5 as the specification words it (with as many arguments as parameters, every
  parameter is bound to its argument). A function owns one scope, shared by all its
  calls and cleaned at the end of each. Take \<open>fn f(a, b)\<close>, registered in the root scope,
  and the call \<open>f(1, f(2, 3))\<close>. The outer call binds \<open>a\<close>; evaluating the second argument
  runs the inner call, which cannot add its own \<open>a\<close>, adds \<open>b\<close>, and on its way out
  cleans the scope; the outer call then adds \<open>b\<close>. When the outer call is done binding,
  the function's own table holds \<open>b\<close> alone: the parameter \<open>a\<close> is not bound.
\<close>

theorem nested_call_unbinds_parameter_counterexample:
  "bindParameters (Interpreter hostOnly (Suc (Suc 0)))
     (''f'', [NumericNode 1, CallExpr ''f'' [NumericNode 2, NumericNode 3]]) pairFn 0
     (globalsWith [(''f'', Defined pairFn)])
   = Returned ()
       (snd (addEntry 1 ''b'' (ScrapVariable False ''b'' ScrapUndefined False)
          (clean 1
             (snd (addEntry 1 ''b'' (ScrapVariable False ''b'' (IntegerValue (ScrapInteger 3)) False)
                (snd (addEntry 1 ''a'' (ScrapVariable False ''a'' (IntegerValue (ScrapInteger 1)) False)
                   (globalsWith [(''f'', Defined pairFn)]))))))))
   \<and> ownEntries
       (snd (addEntry 1 ''b'' (ScrapVariable False ''b'' ScrapUndefined False)
          (clean 1
             (snd (addEntry 1 ''b'' (ScrapVariable False ''b'' (IntegerValue (ScrapInteger 3)) False)
                (snd (addEntry 1 ''a'' (ScrapVariable False ''a'' (IntegerValue (ScrapInteger 1)) False)
                   (globalsWith [(''f'', Defined pairFn)])))))))) 1
      = [(''b'', ScrapVariable False ''b'' ScrapUndefined False)]"
  by (simp add: bindParameters_def bindPositional_def pairFn_def getArgs_def getCallee_def
        computeValue_def computeCall_def findCallee_def scopeGet_def getReference.simps
        execCallee_def execDefinedFunc_def runBody_def finishCall_def returnsLocal_def
        addEntry_def clean_def ownEntries_def globalsWith_def upt_rec)

text \<open>
  C5, as the code has it. A call to a defined function whose last parameter is not a
  rest parameter, with \<open>M\<close> arguments for \<open>N\<close> parameters.

  If \<open>M \<noteq> N\<close> the call fails with the runtime error
  \<open>'name' expects N arguments, but received M\<close>.

  If \<open>M = N\<close>, every parameter is bound in the callee's own scope to a Variable that is
  not const and holds the value of the argument at the same position, evaluated in the
  caller's scope, and the call goes on from that state with the body, provided that the
  parameter names differ from one another, that the callee's own table has none of them
  when the call starts, and that evaluating an argument succeeds and leaves the
  callee's own table as it was (\<open>P\<close> is any property of the state that the evaluations
  rely on and that they and the insertions into the callee's scope keep).
\<close>

theorem exact_arity_and_binding:
  assumes norest: "\<not> (getParams callee \<noteq> [] \<and> isRest (last (getParams callee)))"
  shows
    "(length args \<noteq> length (getParams callee) \<longrightarrow>
        execDefinedFunc X this (callName, args) callee scope calleerScope s =
          Raised (RuntimeError (quoted (name callee) @ '' expects ''
            @ showNat (length (getParams callee)) @ '' arguments, but received ''
            @ showNat (length args))))
     \<and> (length args = length (getParams callee)
          \<and> distinct (map pName (getParams callee))
          \<and> (\<forall>p\<in>set (getParams callee). map_of (ownEntries s (getScope callee)) (pName p) = None)
          \<and> P s
          \<and> (\<forall>a\<in>set args. \<forall>st. P st \<longrightarrow>
                (\<exists>v st'. this a calleerScope st = Returned v st' \<and> P st'
                   \<and> ownEntries st' (getScope callee) = ownEntries st (getScope callee)))
          \<and> (\<forall>st key e. P st \<longrightarrow> P (snd (addEntry (getScope callee) key e st)))
        \<longrightarrow>
        (\<exists>s1 vs.
            bindParameters this (callName, args) callee calleerScope s = Returned () s1
          \<and> execDefinedFunc X this (callName, args) callee scope calleerScope s =
              andThen (runBody X this callee scope s1) (\<lambda>_ s2. finishCall this callee scope s2)
          \<and> length vs = length args
          \<and> (\<forall>i<length args.
                (\<exists>sa sb. P sa \<and> this (args ! i) calleerScope sa = Returned (vs ! i) sb)
              \<and> map_of (ownEntries s1 (getScope callee)) (pName (getParams callee ! i))
                  = Some (ScrapVariable False (pName (getParams callee ! i)) (vs ! i) False))))"
proof (intro conjI impI)
  let ?params = "getParams callee"
  {
    assume "length args \<noteq> length ?params"
    then show "execDefinedFunc X this (callName, args) callee scope calleerScope s =
          Raised (RuntimeError (quoted (name callee) @ '' expects ''
            @ showNat (length ?params) @ '' arguments, but received ''
            @ showNat (length args)))"
      by (simp add: execDefinedFunc_def bindParameters_exact [OF norest] getArgs_def)
  }
  {
    let ?ref = "getScope callee"
    assume h: "length args = length ?params
          \<and> distinct (map pName ?params)
          \<and> (\<forall>p\<in>set ?params. map_of (ownEntries s ?ref) (pName p) = None)
          \<and> P s
          \<and> (\<forall>a\<in>set args. \<forall>st. P st \<longrightarrow>
                (\<exists>v st'. this a calleerScope st = Returned v st' \<and> P st'
                   \<and> ownEntries st' ?ref = ownEntries st ?ref))
          \<and> (\<forall>st key e. P st \<longrightarrow> P (snd (addEntry ?ref key e st)))"
    then have len: "length args = length ?params" and dist: "distinct (map pName ?params)"
      and fresh: "\<forall>p\<in>set ?params. map_of (ownEntries s ?ref) (pName p) = None"
      and p0: "P s" by simp_all
    from h have ev: "\<And>a st. a \<in> set args \<Longrightarrow> P st \<Longrightarrow>
        \<exists>v st'. this a calleerScope st = Returned v st' \<and> P st'
          \<and> ownEntries st' ?ref = ownEntries st ?ref" by blast
    from h have ins: "\<And>st key e. P st \<Longrightarrow> P (snd (addEntry ?ref key e st))" by blast
    let ?js = "[0..<length ?params]"
    have inA: "\<forall>i\<in>set ?js. args ! i \<in> set args" using len by simp
    have dist': "distinct (map (\<lambda>i. pName (?params ! i)) ?js)"
    proof -
      have "map (\<lambda>i. pName (?params ! i)) ?js = map pName ?params"
        by (rule nth_equalityI) simp_all
      with dist show ?thesis by simp
    qed
    have fresh': "\<forall>i\<in>set ?js. map_of (ownEntries s ?ref) (pName (?params ! i)) = None"
      using fresh by simp
    from bindPositional_loop [of "set args" P this calleerScope callee s ?js args ?params,
        OF ev ins p0 inA dist' fresh']
    obtain s1 where
      loop: "forEach ?js (bindPositional this callee calleerScope ?params args) s = Returned () s1"
      and bound: "\<forall>i\<in>set ?js. \<exists>v sa sb. P sa \<and> this (args ! i) calleerScope sa = Returned v sb
              \<and> map_of (ownEntries s1 ?ref) (pName (?params ! i))
                  = Some (ScrapVariable False (pName (?params ! i)) v False)"
      by blast
    have "\<forall>i<length args. \<exists>v. (\<exists>sa sb. P sa \<and> this (args ! i) calleerScope sa = Returned v sb)
              \<and> map_of (ownEntries s1 ?ref) (pName (?params ! i))
                  = Some (ScrapVariable False (pName (?params ! i)) v False)"
    proof (intro allI impI)
      fix i assume "i < length args"
      then have "i \<in> set ?js" using len by simp
      with bound show "\<exists>v. (\<exists>sa sb. P sa \<and> this (args ! i) calleerScope sa = Returned v sb)
              \<and> map_of (ownEntries s1 ?ref) (pName (?params ! i))
                  = Some (ScrapVariable False (pName (?params ! i)) v False)"
        by blast
    qed
    then obtain vs where vs: "length vs = length args"
      "\<forall>i<length args. (\<exists>sa sb. P sa \<and> this (args ! i) calleerScope sa = Returned (vs ! i) sb)
              \<and> map_of (ownEntries s1 ?ref) (pName (?params ! i))
                  = Some (ScrapVariable False (pName (?params ! i)) (vs ! i) False)"
      unfolding Skolem_list_nth by blast
    have bp: "bindParameters this (callName, args) callee calleerScope s = Returned () s1"
      using len loop by (simp add: bindParameters_exact [OF norest] getArgs_def)
    then have ex: "execDefinedFunc X this (callName, args) callee scope calleerScope s =
              andThen (runBody X this callee scope s1) (\<lambda>_ s2. finishCall this callee scope s2)"
      by (simp add: execDefinedFunc_def)
    from bp ex vs show "\<exists>s1 vs.
            bindParameters this (callName, args) callee calleerScope s = Returned () s1
          \<and> execDefinedFunc X this (callName, args) callee scope calleerScope s =
              andThen (runBody X this callee scope s1) (\<lambda>_ s2. finishCall this callee scope s2)
          \<and> length vs = length args
          \<and> (\<forall>i<length args.
                (\<exists>sa sb. P sa \<and> this (args ! i) calleerScope sa = Returned (vs ! i) sb)
              \<and> map_of (ownEntries s1 ?ref) (pName (?params ! i))
                  = Some (ScrapVariable False (pName (?params ! i)) (vs ! i) False))"
      by blast
  }
qed

theorem exact_arity_and_binding_witness:
  "execDefinedFunc hostOnly (Interpreter hostOnly (Suc 0)) (''add'', [NumericNode 2]) addFn 1 0
      (globalsWith [])
     = Raised (RuntimeError ([CHR 0x27] @ ''add'' @ [CHR 0x27] @ '' expects 2 arguments, but received 1''))
   \<and> (\<exists>s1. bindParameters (Interpreter hostOnly (Suc 0)) (''add'', [NumericNode 2, NumericNode 3])
              addFn 0 (globalsWith []) = Returned () s1
         \<and> map_of (ownEntries s1 1) ''a''
              = Some (ScrapVariable False ''a'' (IntegerValue (ScrapInteger 2)) False)
         \<and> map_of (ownEntries s1 1) ''b''
              = Some (ScrapVariable False ''b'' (IntegerValue (ScrapInteger 3)) False))"
proof -
  let ?ev = "Interpreter hostOnly (Suc 0)"
  let ?s = "globalsWith []"
  have norest: "\<not> (getParams addFn \<noteq> [] \<and> isRest (last (getParams addFn)))"
    by (simp add: addFn_def)
  have mismatch: "length [NumericNode 2] \<noteq> length (getParams addFn)"
    by (simp add: addFn_def)
  from exact_arity_and_binding [OF norest, where args = "[NumericNode 2]" and X = hostOnly
      and this = ?ev and callName = "''add''" and scope = 1 and calleerScope = 0 and s = ?s]
    mismatch
  have first: "execDefinedFunc hostOnly ?ev (''add'', [NumericNode 2]) addFn 1 0 ?s
     = Raised (RuntimeError ([CHR 0x27] @ ''add'' @ [CHR 0x27] @ '' expects 2 arguments, but received 1''))"
    by (simp add: addFn_def quoted_def showNat.simps)
  let ?args = "[NumericNode 2, NumericNode 3]"
  have hyps: "length ?args = length (getParams addFn)
          \<and> distinct (map pName (getParams addFn))
          \<and> (\<forall>p\<in>set (getParams addFn). map_of (ownEntries ?s (getScope addFn)) (pName p) = None)
          \<and> True
          \<and> (\<forall>a\<in>set ?args. \<forall>st. True \<longrightarrow>
                (\<exists>v st'. ?ev a 0 st = Returned v st' \<and> True
                   \<and> ownEntries st' (getScope addFn) = ownEntries st (getScope addFn)))
          \<and> (\<forall>st key e. True \<longrightarrow> True)"
    by (simp add: addFn_def globalsWith_def ownEntries_def computeValue_def)
  from exact_arity_and_binding [OF norest, where args = ?args and X = hostOnly
      and this = ?ev and callName = "''add''" and scope = 1 and calleerScope = 0 and s = ?s
      and P = "\<lambda>_. True"] hyps
  obtain s1 vs where
    bp: "bindParameters ?ev (''add'', ?args) addFn 0 ?s = Returned () s1"
    and each: "\<forall>i<length ?args.
                (\<exists>sa sb. ?ev (?args ! i) 0 sa = Returned (vs ! i) sb)
              \<and> map_of (ownEntries s1 (getScope addFn)) (pName (getParams addFn ! i))
                  = Some (ScrapVariable False (pName (getParams addFn ! i)) (vs ! i) False)"
    by auto
  from each [rule_format, of 0] have a: "map_of (ownEntries s1 1) ''a''
      = Some (ScrapVariable False ''a'' (IntegerValue (ScrapInteger 2)) False)"
    by (auto simp add: addFn_def computeValue_def)
  from each [rule_format, of 1] have b: "map_of (ownEntries s1 1) ''b''
      = Some (ScrapVariable False ''b'' (IntegerValue (ScrapInteger 3)) False)"
    by (auto simp add: addFn_def computeValue_def)
  from first bp a b show ?thesis by blast
qed

text \<open>
  Against C4 as the specification words it (every parameter before the last is bound by
  position, the remaining arguments are collected under the rest parameter). Take
  \<open>fn f(a, ...rest)\<close>, registered in the root scope, and the call \<open>f(1, f(2))\<close>. The
  outer call binds \<open>a\<close>; collecting the remaining argument runs the inner call, which
  cleans the shared scope on its way out; the outer call then adds \<open>rest\<close>. When the
  outer call is done binding, the function's own table holds \<open>rest\<close> alone: the
  parameter \<open>a\<close> is not bound.
\<close>

theorem nested_call_unbinds_rest_prefix_counterexample:
  "bindParameters (Interpreter hostOnly (Suc (Suc 0)))
     (''f'', [NumericNode 1, CallExpr ''f'' [NumericNode 2]]) restFn 0
     (globalsWith [(''f'', Defined restFn)])
   = Returned ()
       (snd (addEntry 1 ''rest''
               (ScrapVariable True ''rest'' (ScrapArray [restElement ScrapUndefined]) False)
          (clean 1
             (snd (addEntry 1 ''rest'' (ScrapVariable True ''rest'' (ScrapArray []) False)
                (snd (addEntry 1 ''a'' (ScrapVariable False ''a'' (IntegerValue (ScrapInteger 1)) False)
                   (globalsWith [(''f'', Defined restFn)]))))))))
   \<and> ownEntries
       (snd (addEntry 1 ''rest''
               (ScrapVariable True ''rest'' (ScrapArray [restElement ScrapUndefined]) False)
          (clean 1
             (snd (addEntry 1 ''rest'' (ScrapVariable True ''rest'' (ScrapArray []) False)
                (snd (addEntry 1 ''a'' (ScrapVariable False ''a'' (IntegerValue (ScrapInteger 1)) False)
                   (globalsWith [(''f'', Defined restFn)])))))))) 1
      = [(''rest'', ScrapVariable True ''rest'' (ScrapArray [restElement ScrapUndefined]) False)]"
  by (simp add: bindParameters_def computeRestParameters_def bindPositional_def restFn_def
        getArgs_def getCallee_def
        computeValue_def computeCall_def findCallee_def scopeGet_def getReference.simps
        execCallee_def execDefinedFunc_def runBody_def finishCall_def returnsLocal_def
        addEntry_def clean_def ownEntries_def globalsWith_def upt_rec)

text \<open>
  C4, as the code has it. A call to a defined function whose last parameter is a rest
  parameter.

  With fewer arguments than parameters before the last, the call fails with the runtime
  error \<open>'name' expects from K to multiple arguments, but received M\<close>.

  Otherwise every parameter before the last is bound by position to a Variable that is
  not const, and the remaining arguments, evaluated in the caller's scope, are collected
  in order (each in a public, static, writeable descriptor) into one array, bound as a
  const Variable under the last parameter's name; with no argument left the array is
  empty. This holds under the provisos of C5: distinct parameter names, none of them in
  the callee's own table when the call starts, and argument evaluations that succeed
  and leave the callee's own table as it was. The witness is \<open>f(a, ...rest)\<close> called as
  \<open>f()\<close>, \<open>f(1, 2, 3)\<close> and \<open>f(1)\<close>.
\<close>

theorem rest_parameters_binding:
  assumes rest: "getParams callee \<noteq> [] \<and> isRest (last (getParams callee))"
  shows
    "(length args < length (getParams callee) - 1 \<longrightarrow>
        execDefinedFunc X this (callName, args) callee scope calleerScope s =
          Raised (RuntimeError (quoted (name callee) @ '' expects from ''
            @ showNat (length (getParams callee) - 1) @ '' to multiple arguments, but received ''
            @ showNat (length args))))
     \<and> (length (getParams callee) - 1 \<le> length args
          \<and> distinct (map pName (getParams callee))
          \<and> (\<forall>p\<in>set (getParams callee). map_of (ownEntries s (getScope callee)) (pName p) = None)
          \<and> P s
          \<and> (\<forall>a\<in>set args. \<forall>st. P st \<longrightarrow>
                (\<exists>v st'. this a calleerScope st = Returned v st' \<and> P st'
                   \<and> ownEntries st' (getScope callee) = ownEntries st (getScope callee)))
          \<and> (\<forall>st key e. P st \<longrightarrow> P (snd (addEntry (getScope callee) key e st)))
        \<longrightarrow>
        (\<exists>s1 vs.
            bindParameters this (callName, args) callee calleerScope s = Returned () s1
          \<and> execDefinedFunc X this (callName, args) callee scope calleerScope s =
              andThen (runBody X this callee scope s1) (\<lambda>_ s2. finishCall this callee scope s2)
          \<and> length vs = length args
          \<and> (\<forall>i<length args. \<exists>sa sb. P sa \<and> this (args ! i) calleerScope sa = Returned (vs ! i) sb)
          \<and> (\<forall>i<length (getParams callee) - 1.
                map_of (ownEntries s1 (getScope callee)) (pName (getParams callee ! i))
                  = Some (ScrapVariable False (pName (getParams callee ! i)) (vs ! i) False))
          \<and> map_of (ownEntries s1 (getScope callee)) (pName (last (getParams callee)))
                = Some (ScrapVariable True (pName (last (getParams callee)))
                    (ScrapArray (map restElement (drop (length (getParams callee) - 1) vs))) False)))"
proof (intro conjI impI)
  let ?params = "getParams callee"
  let ?ref = "getScope callee"
  let ?r = "length ?params - 1"
  from rest have ne: "?params \<noteq> []" by simp
  {
    assume short: "length args < ?r"
    show "execDefinedFunc X this (callName, args) callee scope calleerScope s =
          Raised (RuntimeError (quoted (name callee) @ '' expects from ''
            @ showNat ?r @ '' to multiple arguments, but received ''
            @ showNat (length args)))"
      by (simp add: execDefinedFunc_def bindParameters_rest [OF rest] getArgs_def
            computeRestParameters_short [OF ne short])
  }
  {
    assume h: "?r \<le> length args
          \<and> distinct (map pName ?params)
          \<and> (\<forall>p\<in>set ?params. map_of (ownEntries s ?ref) (pName p) = None)
          \<and> P s
          \<and> (\<forall>a\<in>set args. \<forall>st. P st \<longrightarrow>
                (\<exists>v st'. this a calleerScope st = Returned v st' \<and> P st'
                   \<and> ownEntries st' ?ref = ownEntries st ?ref))
          \<and> (\<forall>st key e. P st \<longrightarrow> P (snd (addEntry ?ref key e st)))"
    then have enough: "?r \<le> length args" and dist: "distinct (map pName ?params)"
      and fresh: "\<forall>p\<in>set ?params. map_of (ownEntries s ?ref) (pName p) = None"
      and p0: "P s" by simp_all
    from h have ev: "\<And>a st. a \<in> set args \<Longrightarrow> P st \<Longrightarrow>
        \<exists>v st'. this a calleerScope st = Returned v st' \<and> P st'
          \<and> ownEntries st' ?ref = ownEntries st ?ref" by blast
    from h have ins: "\<And>st key e. P st \<Longrightarrow> P (snd (addEntry ?ref key e st))" by blast
    let ?js = "[0..<?r]"
    let ?pre = "take ?r args"
    let ?restName = "pName (last ?params)"
    have r_lt: "?r < length ?params" using ne by simp
    have last_nth: "last ?params = ?params ! ?r" using ne by (simp add: last_conv_nth)
    have inA: "\<forall>i\<in>set ?js. ?pre ! i \<in> set args" using enough by simp
    have names: "map (\<lambda>i. pName (?params ! i)) ?js = map pName (take ?r ?params)"
      by (rule nth_equalityI) simp_all
    have dist': "distinct (map (\<lambda>i. pName (?params ! i)) ?js)"
      unfolding names using dist by (simp add: distinct_take take_map [symmetric])
    have fresh': "\<forall>i\<in>set ?js. map_of (ownEntries s ?ref) (pName (?params ! i)) = None"
      using fresh r_lt by simp
    have restName_other: "?restName \<notin> (\<lambda>i. pName (?params ! i)) ` set ?js"
    proof
      assume "?restName \<in> (\<lambda>i. pName (?params ! i)) ` set ?js"
      then obtain i where i: "i < ?r" and eq: "pName (?params ! ?r) = pName (?params ! i)"
        using last_nth by auto
      from dist have dn: "\<forall>a<length ?params. \<forall>b<length ?params.
          a \<noteq> b \<longrightarrow> pName (?params ! a) \<noteq> pName (?params ! b)"
        by (simp add: distinct_conv_nth)
      from i r_lt have "i < length ?params" and "i \<noteq> ?r" by simp_all
      with dn [rule_format, of i ?r] r_lt eq show False by simp
    qed
    from bindPositional_loop [of "set args" P this calleerScope callee s ?js ?pre ?params,
        OF ev ins p0 inA dist' fresh']
    obtain s1 where
      loop: "forEach ?js (bindPositional this callee calleerScope ?params ?pre) s = Returned () s1"
      and p1: "P s1"
      and bound: "\<forall>i\<in>set ?js. \<exists>v sa sb. P sa \<and> this (?pre ! i) calleerScope sa = Returned v sb
              \<and> map_of (ownEntries s1 ?ref) (pName (?params ! i))
                  = Some (ScrapVariable False (pName (?params ! i)) v False)"
      and kept: "\<forall>key. key \<notin> (\<lambda>i. pName (?params ! i)) ` set ?js \<longrightarrow>
              map_of (ownEntries s1 ?ref) key = map_of (ownEntries s ?ref) key"
      by blast
    have "\<forall>i<?r. \<exists>v. (\<exists>sa sb. P sa \<and> this (args ! i) calleerScope sa = Returned v sb)
              \<and> map_of (ownEntries s1 ?ref) (pName (?params ! i))
                  = Some (ScrapVariable False (pName (?params ! i)) v False)"
    proof (intro allI impI)
      fix i assume i: "i < ?r"
      then have "i \<in> set ?js" by simp
      with bound i show "\<exists>v. (\<exists>sa sb. P sa \<and> this (args ! i) calleerScope sa = Returned v sb)
              \<and> map_of (ownEntries s1 ?ref) (pName (?params ! i))
                  = Some (ScrapVariable False (pName (?params ! i)) v False)"
        by fastforce
    qed
    then obtain front where front: "length front = ?r"
      "\<forall>i<?r. (\<exists>sa sb. P sa \<and> this (args ! i) calleerScope sa = Returned (front ! i) sb)
              \<and> map_of (ownEntries s1 ?ref) (pName (?params ! i))
                  = Some (ScrapVariable False (pName (?params ! i)) (front ! i) False)"
      unfolding Skolem_list_nth by blast
    have "set (drop ?r args) \<subseteq> set args" by (rule set_drop_subset)
    from mapEach_collects [of "set args" P this calleerScope ?ref s1 "drop ?r args", OF ev p1 this]
    obtain collected s2 where
      coll: "mapEach (drop ?r args) (\<lambda>node. this node calleerScope) s1 = Returned collected s2"
      and p2: "P s2" and same2: "ownEntries s2 ?ref = ownEntries s1 ?ref"
      and clen: "length collected = length (drop ?r args)"
      and ceach: "\<forall>j<length (drop ?r args). \<exists>sa sb. P sa
          \<and> this (drop ?r args ! j) calleerScope sa = Returned (collected ! j) sb"
      by blast
    let ?var = "ScrapVariable True ?restName (ScrapArray (map restElement collected)) False"
    let ?s3 = "snd (addEntry ?ref ?restName ?var s2)"
    have "map_of (ownEntries s ?ref) ?restName = None" using fresh ne by simp
    with kept restName_other same2 have rfresh: "map_of (ownEntries s2 ?ref) ?restName = None"
      by simp
    have tbl3: "ownEntries ?s3 ?ref = ownEntries s1 ?ref @ [(?restName, ?var)]"
      using addEntry_fresh [OF rfresh] same2 by simp
    have crp: "computeRestParameters this callee calleerScope ?params args s = Returned () ?s3"
      using loop coll by (simp add: computeRestParameters_enough [OF ne enough])
    then have bp: "bindParameters this (callName, args) callee calleerScope s = Returned () ?s3"
      by (simp add: bindParameters_rest [OF rest] getArgs_def)
    then have ex: "execDefinedFunc X this (callName, args) callee scope calleerScope s =
              andThen (runBody X this callee scope ?s3) (\<lambda>_ s2. finishCall this callee scope s2)"
      by (simp add: execDefinedFunc_def)
    let ?vs = "front @ collected"
    have vlen: "length ?vs = length args" using front(1) clen enough by simp
    have veach: "\<forall>i<length args. \<exists>sa sb. P sa \<and> this (args ! i) calleerScope sa = Returned (?vs ! i) sb"
    proof (intro allI impI)
      fix i assume i: "i < length args"
      show "\<exists>sa sb. P sa \<and> this (args ! i) calleerScope sa = Returned (?vs ! i) sb"
      proof (cases "i < ?r")
        case True
        with front show ?thesis by (simp add: nth_append)
      next
        case False
        then have j: "i - ?r < length (drop ?r args)" using i by simp
        from False i have at: "drop ?r args ! (i - ?r) = args ! i" by simp
        from False front(1) have pick: "?vs ! i = collected ! (i - ?r)" by (simp add: nth_append)
        from ceach [rule_format, OF j] show ?thesis unfolding at pick .
      qed
    qed
    have positional: "\<forall>i<?r. map_of (ownEntries ?s3 ?ref) (pName (?params ! i))
                  = Some (ScrapVariable False (pName (?params ! i)) (?vs ! i) False)"
      using front by (simp add: tbl3 map_add_def nth_append)
    have collectedBound: "map_of (ownEntries ?s3 ?ref) ?restName
                = Some (ScrapVariable True ?restName
                    (ScrapArray (map restElement (drop ?r ?vs))) False)"
      using rfresh same2 front(1) by (simp add: tbl3 map_add_def)
    from bp ex vlen veach positional collectedBound
    show "\<exists>s1 vs.
            bindParameters this (callName, args) callee calleerScope s = Returned () s1
          \<and> execDefinedFunc X this (callName, args) callee scope calleerScope s =
              andThen (runBody X this callee scope s1) (\<lambda>_ s2. finishCall this callee scope s2)
          \<and> length vs = length args
          \<and> (\<forall>i<length args. \<exists>sa sb. P sa \<and> this (args ! i) calleerScope sa = Returned (vs ! i) sb)
          \<and> (\<forall>i<?r.
                map_of (ownEntries s1 ?ref) (pName (?params ! i))
                  = Some (ScrapVariable False (pName (?params ! i)) (vs ! i) False))
          \<and> map_of (ownEntries s1 ?ref) ?restName
                = Some (ScrapVariable True ?restName
                    (ScrapArray (map restElement (drop ?r vs))) False)"
      by blast
  }
qed

theorem rest_parameters_binding_witness:
  "execDefinedFunc hostOnly (Interpreter hostOnly (Suc 0)) (''f'', []) restFn 1 0 (globalsWith [])
     = Raised (RuntimeError ([CHR 0x27] @ ''f'' @ [CHR 0x27]
          @ '' expects from 1 to multiple arguments, but received 0''))
   \<and> (\<exists>s1. bindParameters (Interpreter hostOnly (Suc 0))
              (''f'', [NumericNode 1, NumericNode 2, NumericNode 3]) restFn 0 (globalsWith [])
              = Returned () s1
         \<and> map_of (ownEntries s1 1) ''a''
              = Some (ScrapVariable False ''a'' (IntegerValue (ScrapInteger 1)) False)
         \<and> map_of (ownEntries s1 1) ''rest''
              = Some (ScrapVariable True ''rest''
                  (ScrapArray [restElement (IntegerValue (ScrapInteger 2)),
                               restElement (IntegerValue (ScrapInteger 3))]) False))
   \<and> (\<exists>s1. bindParameters (Interpreter hostOnly (Suc 0))
              (''f'', [NumericNode 1]) restFn 0 (globalsWith []) = Returned () s1
         \<and> map_of (ownEntries s1 1) ''a''
              = Some (ScrapVariable False ''a'' (IntegerValue (ScrapInteger 1)) False)
         \<and> map_of (ownEntries s1 1) ''rest''
              = Some (ScrapVariable True ''rest'' (ScrapArray []) False))"
proof -
  let ?ev = "Interpreter hostOnly (Suc 0)"
  let ?s = "globalsWith []"
  have rest: "getParams restFn \<noteq> [] \<and> isRest (last (getParams restFn))"
    by (simp add: restFn_def)
  have short: "length ([] :: ValueNode list) < length (getParams restFn) - 1"
    by (simp add: restFn_def)
  from rest_parameters_binding [OF rest, where args = "[]" and X = hostOnly
      and this = ?ev and callName = "''f''" and scope = 1 and calleerScope = 0 and s = ?s]
    short
  have first: "execDefinedFunc hostOnly ?ev (''f'', []) restFn 1 0 ?s
     = Raised (RuntimeError ([CHR 0x27] @ ''f'' @ [CHR 0x27]
          @ '' expects from 1 to multiple arguments, but received 0''))"
    by (simp add: restFn_def quoted_def showNat.simps)
  have hyps: "\<And>args. set args \<subseteq> {NumericNode 1, NumericNode 2, NumericNode 3} \<Longrightarrow>
          1 \<le> length args \<Longrightarrow>
          length (getParams restFn) - 1 \<le> length args
          \<and> distinct (map pName (getParams restFn))
          \<and> (\<forall>p\<in>set (getParams restFn). map_of (ownEntries ?s (getScope restFn)) (pName p) = None)
          \<and> True
          \<and> (\<forall>a\<in>set args. \<forall>st. True \<longrightarrow>
                (\<exists>v st'. ?ev a 0 st = Returned v st' \<and> True
                   \<and> ownEntries st' (getScope restFn) = ownEntries st (getScope restFn)))
          \<and> (\<forall>st key e. True \<longrightarrow> True)"
    by (auto simp add: restFn_def globalsWith_def ownEntries_def computeValue_def)
  let ?three = "[NumericNode 1, NumericNode 2, NumericNode 3]"
  from rest_parameters_binding [OF rest, where args = ?three and X = hostOnly
      and this = ?ev and callName = "''f''" and scope = 1 and calleerScope = 0 and s = ?s
      and P = "\<lambda>_. True"] hyps [of ?three]
  obtain s1 vs where
    bp: "bindParameters ?ev (''f'', ?three) restFn 0 ?s = Returned () s1"
    and vlen: "length vs = length ?three"
    and each: "\<forall>i<length ?three. \<exists>sa sb. ?ev (?three ! i) 0 sa = Returned (vs ! i) sb"
    and pos: "\<forall>i<length (getParams restFn) - 1.
                map_of (ownEntries s1 (getScope restFn)) (pName (getParams restFn ! i))
                  = Some (ScrapVariable False (pName (getParams restFn ! i)) (vs ! i) False)"
    and coll: "map_of (ownEntries s1 (getScope restFn)) (pName (last (getParams restFn)))
                = Some (ScrapVariable True (pName (last (getParams restFn)))
                    (ScrapArray (map restElement (drop (length (getParams restFn) - 1) vs))) False)"
    by auto
  from vlen obtain x y z where vs: "vs = [x, y, z]"
    by (auto simp add: numeral_3_eq_3 length_Suc_conv)
  from each [rule_format, of 0] have x: "x = IntegerValue (ScrapInteger 1)"
    by (auto simp add: vs computeValue_def)
  from each [rule_format, of 1] have y: "y = IntegerValue (ScrapInteger 2)"
    by (auto simp add: vs computeValue_def)
  from each [rule_format, of 2] have z: "z = IntegerValue (ScrapInteger 3)"
    by (auto simp add: vs computeValue_def)
  from pos [rule_format, of 0] have a3: "map_of (ownEntries s1 1) ''a''
      = Some (ScrapVariable False ''a'' (IntegerValue (ScrapInteger 1)) False)"
    by (simp add: restFn_def vs x)
  from coll have r3: "map_of (ownEntries s1 1) ''rest''
      = Some (ScrapVariable True ''rest''
                  (ScrapArray [restElement (IntegerValue (ScrapInteger 2)),
                               restElement (IntegerValue (ScrapInteger 3))]) False)"
    by (simp add: restFn_def vs y z)
  let ?one = "[NumericNode 1]"
  from rest_parameters_binding [OF rest, where args = ?one and X = hostOnly
      and this = ?ev and callName = "''f''" and scope = 1 and calleerScope = 0 and s = ?s
      and P = "\<lambda>_. True"] hyps [of ?one]
  obtain t1 ws where
    bp1: "bindParameters ?ev (''f'', ?one) restFn 0 ?s = Returned () t1"
    and wlen: "length ws = length ?one"
    and each1: "\<forall>i<length ?one. \<exists>sa sb. ?ev (?one ! i) 0 sa = Returned (ws ! i) sb"
    and pos1: "\<forall>i<length (getParams restFn) - 1.
                map_of (ownEntries t1 (getScope restFn)) (pName (getParams restFn ! i))
                  = Some (ScrapVariable False (pName (getParams restFn ! i)) (ws ! i) False)"
    and coll1: "map_of (ownEntries t1 (getScope restFn)) (pName (last (getParams restFn)))
                = Some (ScrapVariable True (pName (last (getParams restFn)))
                    (ScrapArray (map restElement (drop (length (getParams restFn) - 1) ws))) False)"
    by auto
  from each1 [rule_format, of 0] have w: "ws ! 0 = IntegerValue (ScrapInteger 1)"
    by (auto simp add: computeValue_def)
  from pos1 [rule_format, of 0] have a1: "map_of (ownEntries t1 1) ''a''
      = Some (ScrapVariable False ''a'' (IntegerValue (ScrapInteger 1)) False)"
    by (simp add: restFn_def w)
  from coll1 wlen have r1: "map_of (ownEntries t1 1) ''rest''
      = Some (ScrapVariable True ''rest'' (ScrapArray []) False)"
    by (simp add: restFn_def)
  from first bp a3 r3 bp1 a1 r1 show ?thesis by blast
qed

subsection \<open>Finishing a call\<close>

lemma execDefinedFunc_phases:
  "bindParameters this call callee calleerScope s = Returned () s1 \<Longrightarrow>
   runBody X this callee scope s1 = Returned () s2 \<Longrightarrow>
   execDefinedFunc X this call callee scope calleerScope s = finishCall this callee scope s2"
  by (simp add: execDefinedFunc_def)

lemma execDefinedFunc_returned:
  assumes "execDefinedFunc X this call callee scope calleerScope s = Returned v s'"
  shows "\<exists>s1 s2. bindParameters this call callee calleerScope s = Returned () s1
     \<and> runBody X this callee scope s1 = Returned () s2
     \<and> finishCall this callee scope s2 = Returned v s'"
proof (cases "bindParameters this call callee calleerScope s")
  case Diverged
  with assms show ?thesis by (simp add: execDefinedFunc_def)
next
  case (Raised e)
  with assms show ?thesis by (simp add: execDefinedFunc_def)
next
  case (Returned u s1)
  note bound = this
  show ?thesis
  proof (cases "runBody X this callee scope s1")
    case Diverged
    with assms bound show ?thesis by (simp add: execDefinedFunc_def)
  next
    case (Raised e)
    with assms bound show ?thesis by (simp add: execDefinedFunc_def)
  next
    case (Returned u' s2)
    with assms bound show ?thesis by (simp add: execDefinedFunc_def)
  qed
qed

lemma execCallee_Defined:
  "execCallee X this call (Defined f) scope s = execDefinedFunc X this call f (getScope f) scope s"
  by (simp add: execCallee_def)

lemma clean_empties: "ownEntries (clean ref s) ref = []"
  by (simp add: clean_def ownEntries_def)

text \<open>
  C6. A call to a defined function whose parameters have been bound and whose body has
  run. If the return expression is a bare identifier and the function's own table has
  an entry under that name at this point, the call is rejected with the runtime error
  \<open>You returned a locally scoped value in 'name', ...\<close> instead of returning. If the
  return expression is not a bare identifier, the check does not apply, whatever the own
  table holds: the scope is cleaned and the call returns what the return expression
  gives.
\<close>

theorem local_return_rejected:
  "(bindParameters this call callee calleerScope s = Returned () s1
      \<and> runBody X this callee scope s1 = Returned () s2
      \<and> getReturnValue callee = IdentifierNode symbol
      \<and> symbol \<in> fst ` set (ownEntries s2 (getScope callee))
     \<longrightarrow> execDefinedFunc X this call callee scope calleerScope s =
           Raised (RuntimeError (''You returned a locally scoped value in '' @ quoted (name callee)
             @ '', which will be destroyed after the execution ends'')))
   \<and> (bindParameters this call callee calleerScope s = Returned () s1
      \<and> runBody X this callee scope s1 = Returned () s2
      \<and> (\<forall>symbol. getReturnValue callee \<noteq> IdentifierNode symbol)
     \<longrightarrow> execDefinedFunc X this call callee scope calleerScope s =
           (if getReturnValue callee = UndefinedNode
            then Returned ScrapUndefined (clean (getScope callee) s2)
            else this (getReturnValue callee) scope (clean (getScope callee) s2)))"
proof (intro conjI impI)
  assume h: "bindParameters this call callee calleerScope s = Returned () s1
      \<and> runBody X this callee scope s1 = Returned () s2
      \<and> getReturnValue callee = IdentifierNode symbol
      \<and> symbol \<in> fst ` set (ownEntries s2 (getScope callee))"
  then have "map_of (ownEntries s2 (getScope callee)) symbol \<noteq> None"
    by (simp add: map_of_eq_None_iff)
  with h have "returnsLocal callee s2" by (simp add: returnsLocal_def)
  with h show "execDefinedFunc X this call callee scope calleerScope s =
           Raised (RuntimeError (''You returned a locally scoped value in '' @ quoted (name callee)
             @ '', which will be destroyed after the execution ends''))"
    by (simp add: execDefinedFunc_phases finishCall_def scrapRuntimeError_def)
next
  assume h: "bindParameters this call callee calleerScope s = Returned () s1
      \<and> runBody X this callee scope s1 = Returned () s2
      \<and> (\<forall>symbol. getReturnValue callee \<noteq> IdentifierNode symbol)"
  then have "\<not> returnsLocal callee s2"
    by (cases "getReturnValue callee") (simp_all add: returnsLocal_def)
  with h show "execDefinedFunc X this call callee scope calleerScope s =
           (if getReturnValue callee = UndefinedNode
            then Returned ScrapUndefined (clean (getScope callee) s2)
            else this (getReturnValue callee) scope (clean (getScope callee) s2))"
    by (simp add: execDefinedFunc_phases finishCall_def Let_def)
qed

theorem local_return_rejected_witness:
  "execDefinedFunc declaringVars (Interpreter declaringVars (Suc (Suc 0))) (''leak'', []) leakFn 1 0
      (globalsWith [])
     = Raised (RuntimeError (''You returned a locally scoped value in '' @ [CHR 0x27] @ ''leak''
          @ [CHR 0x27] @ '', which will be destroyed after the execution ends''))
   \<and> (\<exists>s'. execDefinedFunc declaringVars (Interpreter declaringVars (Suc (Suc 0))) (''wrap'', [])
              wrapFn 1 0 (globalsWith [])
            = Returned (ObjectValue (ScrapObject None (Some [(''v'', IntegerValue (ScrapInteger 7))]))) s'
          \<and> ownEntries s' 1 = [])"
proof -
  let ?ev = "Interpreter declaringVars (Suc (Suc 0))"
  let ?s = "globalsWith []"
  let ?var = "ScrapVariable False ''local'' (IntegerValue (ScrapInteger 7)) False"
  let ?s2 = "snd (addEntry 1 ''local'' ?var ?s)"
  have b1: "bindParameters ?ev (''leak'', []) leakFn 0 ?s = Returned () ?s"
    by (simp add: bindParameters_def leakFn_def getArgs_def)
  have r1: "runBody declaringVars ?ev leakFn 1 ?s = Returned () ?s2"
    by (simp add: runBody_def leakFn_def computeInstruction_def computeEntity_def declaringVars_def
          hostOnly_def addToScope_def addEntry_def ownEntries_def globalsWith_def)
  have local: "''local'' \<in> fst ` set (ownEntries ?s2 (getScope leakFn))"
    by (simp add: leakFn_def addEntry_def ownEntries_def globalsWith_def)
  have ret1: "getReturnValue leakFn = IdentifierNode ''local''" by (simp add: leakFn_def)
  from local_return_rejected [where this = ?ev and call = "(''leak'', [])" and callee = leakFn
      and calleerScope = 0 and s = ?s and ?s1.0 = ?s and X = declaringVars and scope = 1
      and ?s2.0 = ?s2 and symbol = "''local''"]
    b1 r1 local ret1
  have first: "execDefinedFunc declaringVars ?ev (''leak'', []) leakFn 1 0 ?s
     = Raised (RuntimeError (''You returned a locally scoped value in '' @ [CHR 0x27] @ ''leak''
          @ [CHR 0x27] @ '', which will be destroyed after the execution ends''))"
    by (simp add: quoted_def leakFn_def)
  have b2: "bindParameters ?ev (''wrap'', []) wrapFn 0 ?s = Returned () ?s"
    by (simp add: bindParameters_def wrapFn_def getArgs_def)
  have r2: "runBody declaringVars ?ev wrapFn 1 ?s = Returned () ?s2"
    by (simp add: runBody_def wrapFn_def computeInstruction_def computeEntity_def declaringVars_def
          hostOnly_def addToScope_def addEntry_def ownEntries_def globalsWith_def)
  have ret2: "\<forall>symbol. getReturnValue wrapFn \<noteq> IdentifierNode symbol" by (simp add: wrapFn_def)
  have eval2: "?ev (getReturnValue wrapFn) 1 (clean (getScope wrapFn) ?s2)
      = Returned (ObjectValue (ScrapObject None (Some [(''v'', IntegerValue (ScrapInteger 7))])))
          (clean (getScope wrapFn) ?s2)"
    by (simp add: wrapFn_def computeValue_def computeLitObj_def)
  from local_return_rejected [where this = ?ev and call = "(''wrap'', [])" and callee = wrapFn
      and calleerScope = 0 and s = ?s and ?s1.0 = ?s and X = declaringVars and scope = 1
      and ?s2.0 = ?s2]
    b2 r2 ret2
  have "execDefinedFunc declaringVars ?ev (''wrap'', []) wrapFn 1 0 ?s
     = ?ev (getReturnValue wrapFn) 1 (clean (getScope wrapFn) ?s2)"
    by (simp add: wrapFn_def)
  with eval2 have second: "execDefinedFunc declaringVars ?ev (''wrap'', []) wrapFn 1 0 ?s
     = Returned (ObjectValue (ScrapObject None (Some [(''v'', IntegerValue (ScrapInteger 7))])))
          (clean (getScope wrapFn) ?s2)"
    by simp
  have "ownEntries (clean (getScope wrapFn) ?s2) 1 = []"
    using clean_empties [of 1 ?s2] by (simp add: wrapFn_def)
  with first second show ?thesis by blast
qed

text \<open>
  C7. Every call to a defined function that returns a value has bound its parameters
  and run its body; the function's own scope is then cleaned, so that its own table is
  empty, and only then is the value produced: the Undefined value, in the cleaned state,
  when the return expression is the "undefined" expression; otherwise whatever
  evaluating the return expression in the function's own scope, from the cleaned state,
  gives. Conversely a call whose parameters are bound, whose body runs and whose return
  expression passes the check of C6 ends exactly so.
\<close>

theorem scope_cleaned_before_return:
  "(execCallee X this call (Defined f) scope s = Returned v s' \<longrightarrow>
      (\<exists>s1 s2. bindParameters this call f scope s = Returned () s1
         \<and> runBody X this f (getScope f) s1 = Returned () s2
         \<and> ownEntries (clean (getScope f) s2) (getScope f) = []
         \<and> (if getReturnValue f = UndefinedNode
             then v = ScrapUndefined \<and> s' = clean (getScope f) s2
             else this (getReturnValue f) (getScope f) (clean (getScope f) s2) = Returned v s')))
   \<and> (bindParameters this call f scope s = Returned () s1
        \<and> runBody X this f (getScope f) s1 = Returned () s2
        \<and> \<not> returnsLocal f s2
      \<longrightarrow> execCallee X this call (Defined f) scope s =
            (if getReturnValue f = UndefinedNode
             then Returned ScrapUndefined (clean (getScope f) s2)
             else this (getReturnValue f) (getScope f) (clean (getScope f) s2)))"
proof (intro conjI impI)
  assume "execCallee X this call (Defined f) scope s = Returned v s'"
  then have "execDefinedFunc X this call f (getScope f) scope s = Returned v s'"
    by (simp add: execCallee_Defined)
  from execDefinedFunc_returned [OF this] obtain s1 s2 where
    b: "bindParameters this call f scope s = Returned () s1"
    and r: "runBody X this f (getScope f) s1 = Returned () s2"
    and fin: "finishCall this f (getScope f) s2 = Returned v s'" by blast
  from fin have nolocal: "\<not> returnsLocal f s2"
    by (auto simp add: finishCall_def scrapRuntimeError_def split: if_splits)
  with fin have "if getReturnValue f = UndefinedNode
             then v = ScrapUndefined \<and> s' = clean (getScope f) s2
             else this (getReturnValue f) (getScope f) (clean (getScope f) s2) = Returned v s'"
    by (auto simp add: finishCall_def Let_def split: if_splits)
  with b r clean_empties [of "getScope f" s2]
  show "\<exists>s1 s2. bindParameters this call f scope s = Returned () s1
         \<and> runBody X this f (getScope f) s1 = Returned () s2
         \<and> ownEntries (clean (getScope f) s2) (getScope f) = []
         \<and> (if getReturnValue f = UndefinedNode
             then v = ScrapUndefined \<and> s' = clean (getScope f) s2
             else this (getReturnValue f) (getScope f) (clean (getScope f) s2) = Returned v s')"
    by blast
next
  assume "bindParameters this call f scope s = Returned () s1
        \<and> runBody X this f (getScope f) s1 = Returned () s2
        \<and> \<not> returnsLocal f s2"
  then show "execCallee X this call (Defined f) scope s =
            (if getReturnValue f = UndefinedNode
             then Returned ScrapUndefined (clean (getScope f) s2)
             else this (getReturnValue f) (getScope f) (clean (getScope f) s2))"
    by (simp add: execCallee_Defined execDefinedFunc_phases finishCall_def Let_def)
qed

theorem scope_cleaned_before_return_witness:
  "(\<exists>s'. execCallee declaringVars (Interpreter declaringVars (Suc (Suc 0))) (''quiet'', [NumericNode 1])
            (Defined quietFn) 0 (globalsWith []) = Returned ScrapUndefined s'
          \<and> ownEntries s' 1 = [])
   \<and> (\<exists>s'. execCallee declaringVars (Interpreter declaringVars (Suc (Suc 0))) (''wrap'', [])
            (Defined wrapFn) 0 (globalsWith [])
            = Returned (ObjectValue (ScrapObject None (Some [(''v'', IntegerValue (ScrapInteger 7))]))) s'
          \<and> ownEntries s' 1 = [])"
proof -
  let ?ev = "Interpreter declaringVars (Suc (Suc 0))"
  let ?s = "globalsWith []"
  let ?a = "ScrapVariable False ''a'' (IntegerValue (ScrapInteger 1)) False"
  let ?var = "ScrapVariable False ''local'' (IntegerValue (ScrapInteger 7)) False"
  let ?sA = "snd (addEntry 1 ''a'' ?a ?s)"
  let ?sB = "snd (addEntry 1 ''local'' ?var ?sA)"
  let ?sW = "snd (addEntry 1 ''local'' ?var ?s)"
  have b1: "bindParameters ?ev (''quiet'', [NumericNode 1]) quietFn 0 ?s = Returned () ?sA"
    by (simp add: bindParameters_def quietFn_def getArgs_def bindPositional_def computeValue_def)
  have r1: "runBody declaringVars ?ev quietFn (getScope quietFn) ?sA = Returned () ?sB"
    by (simp add: runBody_def quietFn_def computeInstruction_def computeEntity_def declaringVars_def
          hostOnly_def addToScope_def addEntry_def ownEntries_def globalsWith_def)
  have n1: "\<not> returnsLocal quietFn ?sB" by (simp add: returnsLocal_def quietFn_def)
  note q = scope_cleaned_before_return [where this = ?ev and call = "(''quiet'', [NumericNode 1])"
      and f = quietFn and scope = 0 and s = ?s and X = declaringVars and ?s1.0 = ?sA and ?s2.0 = ?sB
      and v = ScrapUndefined and s' = "clean (getScope quietFn) ?sB"]
  from q [THEN conjunct2] b1 r1 n1 have run1: "execCallee declaringVars ?ev (''quiet'', [NumericNode 1]) (Defined quietFn) 0 ?s
      = Returned ScrapUndefined (clean (getScope quietFn) ?sB)"
    by (simp add: quietFn_def)
  with q [THEN conjunct1] obtain t2 where "ownEntries (clean (getScope quietFn) t2) (getScope quietFn) = []"
      and "clean (getScope quietFn) ?sB = clean (getScope quietFn) t2"
    by (auto simp add: quietFn_def)
  then have e1: "ownEntries (clean (getScope quietFn) ?sB) 1 = []" by (simp add: quietFn_def)
  have b2: "bindParameters ?ev (''wrap'', []) wrapFn 0 ?s = Returned () ?s"
    by (simp add: bindParameters_def wrapFn_def getArgs_def)
  have r2: "runBody declaringVars ?ev wrapFn (getScope wrapFn) ?s = Returned () ?sW"
    by (simp add: runBody_def wrapFn_def computeInstruction_def computeEntity_def declaringVars_def
          hostOnly_def addToScope_def addEntry_def ownEntries_def globalsWith_def)
  have n2: "\<not> returnsLocal wrapFn ?sW" by (simp add: returnsLocal_def wrapFn_def)
  have eval2: "?ev (getReturnValue wrapFn) (getScope wrapFn) (clean (getScope wrapFn) ?sW)
      = Returned (ObjectValue (ScrapObject None (Some [(''v'', IntegerValue (ScrapInteger 7))])))
          (clean (getScope wrapFn) ?sW)"
    by (simp add: wrapFn_def computeValue_def computeLitObj_def)
  note w = scope_cleaned_before_return [where this = ?ev and call = "(''wrap'', [])"
      and f = wrapFn and scope = 0 and s = ?s and X = declaringVars and ?s1.0 = ?s and ?s2.0 = ?sW
      and v = "ObjectValue (ScrapObject None (Some [(''v'', IntegerValue (ScrapInteger 7))]))"
      and s' = "clean (getScope wrapFn) ?sW"]
  from w [THEN conjunct2] b2 r2 n2 have "execCallee declaringVars ?ev (''wrap'', []) (Defined wrapFn) 0 ?s
      = ?ev (getReturnValue wrapFn) (getScope wrapFn) (clean (getScope wrapFn) ?sW)"
    by (simp add: wrapFn_def)
  with eval2 have run2: "execCallee declaringVars ?ev (''wrap'', []) (Defined wrapFn) 0 ?s
      = Returned (ObjectValue (ScrapObject None (Some [(''v'', IntegerValue (ScrapInteger 7))])))
          (clean (getScope wrapFn) ?sW)"
    by simp
  have e2: "ownEntries (clean (getScope wrapFn) ?sW) 1 = []"
    using clean_empties [of 1 ?sW] by (simp add: wrapFn_def)
  from run1 e1 run2 e2 show ?thesis by blast
qed

end
